theory Spec2Isabelle
  imports Complex_Main "HOL-Library.Product_Lexorder" "HOL-Library.Sublist"
begin

section \<open>Research Colossus: the orchestration engine\<close>

text \<open>
  A shallow embedding of the backend's orchestration core: the tables of
  \<^verbatim>\<open>app/db/models.py\<close>, the reasoning-service wrappers of
  \<^verbatim>\<open>app/services/gemini_service.py\<close>, the worker loop of
  \<^verbatim>\<open>app/workers/tasks.py\<close> and the endpoints of \<^verbatim>\<open>app/api/routes.py\<close>
  that write session, branch or task records.

  Conventions of the embedding.
  \<^item> A table is the list of its rows in insertion order. A query without
    \<^verbatim>\<open>ORDER BY\<close> returns the matching rows in that order.
  \<^item> An ORM attribute assignment followed by \<^verbatim>\<open>session.commit()\<close> is one
    update of the stored rows carrying the object's primary key.
  \<^item> The worker builds its session with the defaults (line 26 of
    \<^verbatim>\<open>tasks.py\<close>), so each commit expires the objects loaded in it. Reading
    an attribute of an expired object needs a lazy load, which inside the
    coroutine raises \<^verbatim>\<open>MissingGreenlet\<close>; writing an attribute needs no load.
  \<^item> Python exceptions are values of type \<open>error\<close>; a function that may raise
    returns the store it has reached together with the exception, because
    every commit made before the exception stays in the database.
  \<^item> The external model client is an oracle \<open>generate_content\<close> of the
    environment. It is indexed by the number of service invocations made so
    far, so that two calls with the same arguments may answer differently.
  \<^item> The columns \<^verbatim>\<open>created_at\<close> and \<^verbatim>\<open>timestamp\<close> hold wall-clock readings and are
    left out; no modelled function reads them.
\<close>

subsection \<open>JSON values\<close>

text \<open>
  What \<^verbatim>\<open>json.loads\<close> returns. A dictionary is an association list in document
  order; a float is the (finite) number it denotes.
\<close>

datatype json =
    JNull
  | JBool bool
  | JInt int
  | JFloat real
  | JStr string
  | JList "json list"
  | JDict "(string \<times> json) list"

subsection \<open>Tables (\<^verbatim>\<open>app/db/models.py\<close>)\<close>

record research_session =
  s_id :: int
  s_original_prompt :: string
  s_status :: string
  s_final_synthesis :: "string option"

record research_branch =
  b_id :: int
  b_session_id :: int
  b_name :: string
  b_status :: string

record research_task =
  t_id :: int
  t_branch_id :: int
  t_description :: string
  t_assigned_to :: string
  t_status :: string
  t_priority :: int
  t_result :: "string option"
  t_python_code :: "string option"
  t_experiment_spec :: "json option"
  t_dependencies :: json

record agent_log =
  l_id :: int
  l_session_id :: int
  l_agent_name :: string
  l_message :: string
  l_type :: string

record knowledge_fact =
  f_id :: int
  f_session_id :: int
  f_content :: string
  f_source_agent :: string
  f_confidence :: int

record db =
  sessions :: "research_session list"
  branches :: "research_branch list"
  tasks :: "research_task list"
  logs :: "agent_log list"
  facts :: "knowledge_fact list"

text \<open>The primary key the database gives to a new row: above every key in use.\<close>

definition next_id :: "int list \<Rightarrow> int" where
  "next_id ids = fold max ids 0 + 1"

subsection \<open>Scheduler: the query at the head of the worker loop\<close>

text \<open>
  \<^verbatim>\<open>select(ResearchTask).join(ResearchBranch)
    .where(ResearchBranch.session_id == session_id, ResearchTask.status == "pending")
    .order_by(ResearchTask.priority.desc(), ResearchTask.id)\<close>

  The join is on the foreign key \<^verbatim>\<open>ResearchTask.branch_id\<close>. Neither the
  branch's status nor the task's dependency list occurs in the query.
\<close>

definition rows_for :: "int \<Rightarrow> research_branch list \<Rightarrow> research_task \<Rightarrow> research_task list" where
  "rows_for sid bs t =
     concat (map (\<lambda>b.
       if t_branch_id t = b_id b \<and> b_session_id b = sid \<and> t_status t = ''pending''
       then [t] else []) bs)"

definition pending_rows :: "int \<Rightarrow> db \<Rightarrow> research_task list" where
  "pending_rows sid d = concat (map (rows_for sid (branches d)) (tasks d))"

definition task_key :: "research_task \<Rightarrow> int \<times> int" where
  "task_key t = (- t_priority t, t_id t)"

definition pending_queue :: "int \<Rightarrow> db \<Rightarrow> research_task list" where
  "pending_queue sid d = sort_key task_key (pending_rows sid d)"

text \<open>\<^verbatim>\<open>task_res.first()\<close>: the first row, or \<^verbatim>\<open>None\<close>.\<close>

definition first_row :: "'a list \<Rightarrow> 'a option" where
  "first_row xs = (case xs of [] \<Rightarrow> None | x # _ \<Rightarrow> Some x)"

definition select_next :: "int \<Rightarrow> db \<Rightarrow> research_task option" where
  "select_next sid d = first_row (pending_queue sid d)"

text \<open>
  The pending tasks of a session, as a predicate: the task is stored, its
  status is \<^verbatim>\<open>pending\<close>, and some stored branch of the session owns it.
\<close>

definition is_pending_in :: "int \<Rightarrow> db \<Rightarrow> research_task \<Rightarrow> bool" where
  "is_pending_in sid d t \<longleftrightarrow>
     t \<in> set (tasks d) \<and> t_status t = ''pending'' \<and>
     (\<exists>b \<in> set (branches d). t_branch_id t = b_id b \<and> b_session_id b = sid)"

subsection \<open>Python strings\<close>

text \<open>
  Strings are byte lists; \<^verbatim>\<open>lower\<close> and \<^verbatim>\<open>strip\<close> are the ASCII parts of Python's
  \<^verbatim>\<open>str.lower\<close> and \<^verbatim>\<open>str.strip\<close>, and \<^verbatim>\<open>take n\<close> stands for the slice
  \<^verbatim>\<open>[:n]\<close>.
\<close>

definition lower_char :: "char \<Rightarrow> char" where
  "lower_char c =
     (let n = (of_char c :: nat) in if 65 \<le> n \<and> n \<le> 90 then char_of (n + 32) else c)"

definition lower :: "string \<Rightarrow> string" where
  "lower s = map lower_char s"

text \<open>\<^verbatim>\<open>sub in s\<close> on strings.\<close>

fun py_in :: "string \<Rightarrow> string \<Rightarrow> bool" where
  "py_in sub [] = (sub = [])"
| "py_in sub (c # cs) = (prefix sub (c # cs) \<or> py_in sub cs)"

definition is_space :: "char \<Rightarrow> bool" where
  "is_space c = (let n = (of_char c :: nat) in (9 \<le> n \<and> n \<le> 13) \<or> (28 \<le> n \<and> n \<le> 32))"

definition strip :: "string \<Rightarrow> string" where
  "strip s = rev (dropWhile is_space (rev (dropWhile is_space s)))"

text \<open>\<^verbatim>\<open>sep.join(xs)\<close>.\<close>

fun join :: "string \<Rightarrow> string list \<Rightarrow> string" where
  "join sep [] = []"
| "join sep [x] = x"
| "join sep (x # y # ys) = x @ sep @ join sep (y # ys)"

definition newline :: string where
  "newline = [CHR 0x0A]"

text \<open>\<^verbatim>\<open>list(dict.fromkeys(urls))\<close>: the first occurrence of each element, in order.\<close>

fun dedupe :: "'a list \<Rightarrow> 'a list" where
  "dedupe [] = []"
| "dedupe (x # xs) = x # dedupe (filter (\<lambda>y. y \<noteq> x) xs)"

subsection \<open>Exceptions\<close>

datatype error =
    QuotaExhaustedError string
  | RuntimeError string
  | ClientError string
  | JSONDecodeError
  | ValueError string
  | AttributeError
  | TypeError
  | DBAPIError
  | MultipleResultsFound
  | UnboundLocalError
  | MissingGreenlet
  | BaseException string

text \<open>
  \<open>ClientError e\<close> is an exception of the model client whose \<^verbatim>\<open>str\<close> is \<open>e\<close>,
  re-raised as it is. \<open>DBAPIError\<close> is a commit refused by the database.
  \<open>BaseException b\<close> is an exception outside the class \<^verbatim>\<open>Exception\<close>
  (\<^verbatim>\<open>KeyboardInterrupt\<close>, \<^verbatim>\<open>SystemExit\<close>), which no \<^verbatim>\<open>except Exception\<close> catches.
\<close>

subsection \<open>The reasoning service (\<^verbatim>\<open>app/services/gemini_service.py\<close>)\<close>

text \<open>
  A response of \<^verbatim>\<open>client.models.generate_content\<close>: its \<^verbatim>\<open>text\<close> and the web
  URIs that the walk over its grounding chunks collects.
\<close>

record response =
  r_text :: "string option"
  r_grounding_uris :: "string list"

text \<open>
  What a call of the client does: it raises an exception of class
  \<^verbatim>\<open>Exception\<close> whose \<^verbatim>\<open>str\<close> is given, it raises an exception outside that
  class, or it returns a response.
\<close>

datatype client_result = Raised string | RaisedBase string | Returned response

record attachment =
  a_name :: "string option"
  a_content :: "string option"

text \<open>
  One invocation of a service function, with its arguments. The prompt text a
  function sends is a fixed template around its arguments, so the oracle is
  given the arguments.
\<close>

datatype service_call =
    OrchestratePlan string "attachment list"
  | ExecuteAgentTask string string string
  | SynthesizeResearch string "(string \<times> string \<times> int) list"

text \<open>
  The environment: the variable \<^verbatim>\<open>GEMINI_API_KEY\<close>, the model client and
  \<^verbatim>\<open>_extract_json\<close> (fence stripping followed by \<^verbatim>\<open>json.loads\<close>; \<open>None\<close> is
  its \<^verbatim>\<open>JSONDecodeError\<close>).
\<close>

record env =
  api_key :: "string option"
  generate_content :: "nat \<Rightarrow> service_call \<Rightarrow> client_result"
  extract_json :: "string \<Rightarrow> json option"

text \<open>
  The world: the committed database, the service invocations made so far (each
  with the database as committed at that moment) and the jobs handed to the
  worker queue.
\<close>

record world =
  store :: db
  events :: "(service_call \<times> db) list"
  queue :: "int list"

definition invoke :: "service_call \<Rightarrow> world \<Rightarrow> world" where
  "invoke c w = w\<lparr>events := events w @ [(c, store w)]\<rparr>"

definition get_client :: "env \<Rightarrow> error + unit" where
  "get_client e =
     (case api_key e of
        None \<Rightarrow> Inl (RuntimeError ''GEMINI_API_KEY environment variable is not set'')
      | Some k \<Rightarrow>
          if k = [] then Inl (RuntimeError ''GEMINI_API_KEY environment variable is not set'')
          else Inr ())"

definition is_quota_message :: "string \<Rightarrow> bool" where
  "is_quota_message e =
     (let error_str = lower e in
      py_in ''429'' error_str \<or> py_in ''resource_exhausted'' error_str \<or> py_in ''quota'' error_str)"

text \<open>\<^verbatim>\<open>_handle_gemini_error\<close> always raises; the result is the exception it raises.\<close>

definition handle_gemini_error :: "string \<Rightarrow> string \<Rightarrow> error" where
  "handle_gemini_error e operation =
     (if is_quota_message e
      then QuotaExhaustedError
             (''Gemini API quota exhausted during '' @ operation @ ''. '' @
              ''Please wait for quota reset or upgrade to a paid plan. '' @
              ''See: https://ai.google.dev/pricing'')
      else ClientError e)"

definition orchestrate_plan ::
  "env \<Rightarrow> string \<Rightarrow> attachment list \<Rightarrow> world \<Rightarrow> world \<times> (error + json list)" where
  "orchestrate_plan e prompt attachments w =
     (let c = OrchestratePlan prompt attachments;
          n = length (events w);
          w' = invoke c w
      in case get_client e of
           Inl err \<Rightarrow> (w', Inl err)
         | Inr _ \<Rightarrow>
             (case generate_content e n c of
                Raised msg \<Rightarrow> (w', Inl (handle_gemini_error msg ''orchestrate_plan''))
              | RaisedBase b \<Rightarrow> (w', Inl (BaseException b))
              | Returned resp \<Rightarrow>
                  (let raw = (case r_text resp of None \<Rightarrow> [] | Some s \<Rightarrow> s)
                   in case extract_json e raw of
                        None \<Rightarrow> (w', Inl JSONDecodeError)
                      | Some (JList data) \<Rightarrow> (w', Inr data)
                      | Some _ \<Rightarrow>
                          (w', Inl (ValueError ''orchestrate_plan: expected a list of branches'')))))"

definition execute_agent_task ::
  "env \<Rightarrow> string \<Rightarrow> string \<Rightarrow> string \<Rightarrow> world \<Rightarrow> world \<times> (error + string \<times> string list)" where
  "execute_agent_task e task_desc role context w =
     (let c = ExecuteAgentTask task_desc role context;
          n = length (events w);
          w' = invoke c w
      in case get_client e of
           Inl err \<Rightarrow> (w', Inl err)
         | Inr _ \<Rightarrow>
             (case generate_content e n c of
                Raised msg \<Rightarrow> (w', Inl (handle_gemini_error msg ''execute_agent_task''))
              | RaisedBase b \<Rightarrow> (w', Inl (BaseException b))
              | Returned resp \<Rightarrow>
                  (w', Inr ((case r_text resp of None \<Rightarrow> [] | Some s \<Rightarrow> s),
                            dedupe (r_grounding_uris resp)))))"

text \<open>
  \<^verbatim>\<open>synthesize_research\<close>: the client is built before the \<^verbatim>\<open>try\<close>; inside it every
  exception of class \<^verbatim>\<open>Exception\<close> is answered with a fixed message, and an
  empty or missing text with another.
\<close>

definition synthesize_research ::
  "env \<Rightarrow> string \<Rightarrow> (string \<times> string \<times> int) list \<Rightarrow> world \<Rightarrow> world \<times> (error + string)" where
  "synthesize_research e original_prompt knowledge_facts w =
     (let c = SynthesizeResearch original_prompt knowledge_facts;
          n = length (events w);
          w' = invoke c w
      in case get_client e of
           Inl err \<Rightarrow> (w', Inl err)
         | Inr _ \<Rightarrow>
             (case generate_content e n c of
                Raised msg \<Rightarrow> (w', Inr ''Could not synthesize final report.'')
              | RaisedBase b \<Rightarrow> (w', Inl (BaseException b))
              | Returned resp \<Rightarrow>
                  (w', Inr (case r_text resp of
                              None \<Rightarrow> ''Synthesis failed.''
                            | Some s \<Rightarrow> if s = [] then ''Synthesis failed.'' else s))))"

subsection \<open>Writes of the worker\<close>

definition map_store :: "(db \<Rightarrow> db) \<Rightarrow> world \<Rightarrow> world" where
  "map_store f w = w\<lparr>store := f (store w)\<rparr>"

text \<open>\<^verbatim>\<open>research_session.status = st\<close> and commit.\<close>

definition set_session_status :: "int \<Rightarrow> string \<Rightarrow> db \<Rightarrow> db" where
  "set_session_status sid st d =
     d\<lparr>sessions := map (\<lambda>s. if s_id s = sid then s\<lparr>s_status := st\<rparr> else s) (sessions d)\<rparr>"

text \<open>\<^verbatim>\<open>research_session.status = "completed"\<close>, \<^verbatim>\<open>.final_synthesis = synthesis\<close> and commit.\<close>

definition complete_session :: "int \<Rightarrow> string \<Rightarrow> db \<Rightarrow> db" where
  "complete_session sid synthesis d =
     d\<lparr>sessions := map (\<lambda>s. if s_id s = sid
                               then s\<lparr>s_status := ''completed'', s_final_synthesis := Some synthesis\<rparr>
                               else s) (sessions d)\<rparr>"

text \<open>\<^verbatim>\<open>task.status = "running"\<close> and commit.\<close>

definition mark_running :: "int \<Rightarrow> db \<Rightarrow> db" where
  "mark_running tid d =
     d\<lparr>tasks := map (\<lambda>t. if t_id t = tid then t\<lparr>t_status := ''running''\<rparr> else t) (tasks d)\<rparr>"

text \<open>\<^verbatim>\<open>task.result = content\<close>, \<^verbatim>\<open>task.status = "done"\<close> and commit.\<close>

definition mark_done :: "int \<Rightarrow> string \<Rightarrow> db \<Rightarrow> db" where
  "mark_done tid content d =
     d\<lparr>tasks := map (\<lambda>t. if t_id t = tid
                         then t\<lparr>t_result := Some content, t_status := ''done''\<rparr>
                         else t) (tasks d)\<rparr>"

text \<open>\<^verbatim>\<open>session.add(AgentLog(...))\<close> and commit.\<close>

definition add_log :: "int \<Rightarrow> string \<Rightarrow> string \<Rightarrow> string \<Rightarrow> db \<Rightarrow> db" where
  "add_log sid agent msg ty d =
     d\<lparr>logs := logs d @
        [\<lparr>l_id = next_id (map l_id (logs d)), l_session_id = sid, l_agent_name = agent,
          l_message = msg, l_type = ty\<rparr>]\<rparr>"

text \<open>\<^verbatim>\<open>select(KnowledgeFact).where(KnowledgeFact.session_id == session_id)\<close>.\<close>

definition session_facts :: "int \<Rightarrow> db \<Rightarrow> knowledge_fact list" where
  "session_facts sid d = filter (\<lambda>f. f_session_id f = sid) (facts d)"

text \<open>\<^verbatim>\<open>"\n".join(f"- [{f.source_agent}] {f.content}" for f in facts)\<close>.\<close>

definition build_context :: "knowledge_fact list \<Rightarrow> string" where
  "build_context fs =
     join newline (map (\<lambda>f. ''- ['' @ f_source_agent f @ ''] '' @ f_content f) fs)"

definition facts_payload :: "knowledge_fact list \<Rightarrow> (string \<times> string \<times> int) list" where
  "facts_payload fs = map (\<lambda>f. (f_source_agent f, f_content f, f_confidence f)) fs"

text \<open>\<^verbatim>\<open>res.one_or_none()\<close>.\<close>

fun one_or_none :: "'a list \<Rightarrow> error + 'a option" where
  "one_or_none [] = Inr None"
| "one_or_none [x] = Inr (Some x)"
| "one_or_none (x # y # ys) = Inl MultipleResultsFound"

subsection \<open>The worker loop (\<^verbatim>\<open>app/workers/tasks.py\<close>)\<close>

text \<open>
  Reading attributes of an object that a commit has expired: the values the
  row holds are not returned, \<^verbatim>\<open>MissingGreenlet\<close> is raised.
\<close>

definition read_expired :: "'a \<Rightarrow> error + 'a" where
  "read_expired stored = Inl MissingGreenlet"

text \<open>
  The body of the \<^verbatim>\<open>while\<close> loop for the task the query returned (lines
  71 to 101). The second component is the exception that leaves the body, if
  any. The commit of line 72 expires \<^verbatim>\<open>task\<close>; lines 82 and 83 read its
  description and role to build the arguments of the call. The facts of lines
  75 to 79 are loaded after that commit and are read before the next one. The
  commit of line 90 expires \<^verbatim>\<open>task\<close> again before lines 95 and 96 read it.
\<close>

definition execute_task :: "env \<Rightarrow> int \<Rightarrow> research_task \<Rightarrow> world \<Rightarrow> world \<times> error option" where
  "execute_task e sid task w =
     (let w1 = map_store (mark_running (t_id task)) w;
          context = build_context (session_facts sid (store w1))
      in case read_expired (t_description task, t_assigned_to task) of
           Inl err \<Rightarrow> (w1, Some err)
         | Inr (task_desc, role) \<Rightarrow>
             (case execute_agent_task e task_desc role context w1 of
                (w2, Inl err) \<Rightarrow> (w2, Some err)
              | (w2, Inr (content, urls)) \<Rightarrow>
                  (let w3 = map_store (mark_done (t_id task) content) w2
                   in case read_expired (t_assigned_to task, t_description task) of
                        Inl err \<Rightarrow> (w3, Some err)
                      | Inr (agent_name, description) \<Rightarrow>
                          (map_store (add_log sid agent_name
                             (''Completed task: '' @ take 100 description) ''success'') w3,
                           None))))"

text \<open>
  The code after the loop (lines 103 to 119). \<^verbatim>\<open>research_session\<close> is the object
  that \<^verbatim>\<open>_run\<close> loaded on line 30; the commit of line 35 has expired it
  before the call, and so has every commit of the loop. Line 113 reads its
  prompt while the arguments of \<^verbatim>\<open>synthesize_research\<close> are evaluated.
\<close>

definition synthesis_step :: "env \<Rightarrow> int \<Rightarrow> research_session \<Rightarrow> world \<Rightarrow> world \<times> error option" where
  "synthesis_step e sid research_session w =
     (let facts_payload = facts_payload (session_facts sid (store w))
      in case read_expired (s_original_prompt research_session) of
           Inl err \<Rightarrow> (w, Some err)
         | Inr original_prompt \<Rightarrow>
             (case synthesize_research e original_prompt facts_payload w of
                (w1, Inl err) \<Rightarrow> (w1, Some err)
              | (w1, Inr synthesis) \<Rightarrow> (map_store (complete_session sid synthesis) w1, None)))"

subsection \<open>Plan descriptors\<close>

text \<open>
  The plan is whatever JSON the model wrote. \<^verbatim>\<open>x.get(k, default)\<close> exists on a
  dictionary only; on any other value it raises \<^verbatim>\<open>AttributeError\<close>.
\<close>

definition as_dict :: "json \<Rightarrow> (string \<times> json) list option" where
  "as_dict v = (case v of JDict kv \<Rightarrow> Some kv | _ \<Rightarrow> None)"

definition dict_get :: "(string \<times> json) list \<Rightarrow> string \<Rightarrow> json \<Rightarrow> json" where
  "dict_get kv k dflt = (case map_of kv k of None \<Rightarrow> dflt | Some v \<Rightarrow> v)"

text \<open>Python's truth value, as \<^verbatim>\<open>or\<close> tests it.\<close>

fun truthy :: "json \<Rightarrow> bool" where
  "truthy JNull = False"
| "truthy (JBool b) = b"
| "truthy (JInt i) = (i \<noteq> 0)"
| "truthy (JFloat r) = (r \<noteq> 0)"
| "truthy (JStr s) = (s \<noteq> [])"
| "truthy (JList xs) = (xs \<noteq> [])"
| "truthy (JDict kv) = (kv \<noteq> [])"

text \<open>
  \<^verbatim>\<open>for x in v\<close>: the elements of a list, the characters of a string, the keys of
  a dictionary; \<^verbatim>\<open>TypeError\<close> on a value that is not iterable.
\<close>

fun iterate :: "json \<Rightarrow> error + json list" where
  "iterate (JList xs) = Inr xs"
| "iterate (JStr s) = Inr (map (\<lambda>c. JStr [c]) s)"
| "iterate (JDict kv) = Inr (map (\<lambda>(k, v). JStr k) kv)"
| "iterate v = Inl TypeError"

text \<open>
  Modelled from the spec: the persistence engine (\<^verbatim>\<open>app/db/session.py\<close> and the
  database behind it, not among the sources) keeps typed records. A text
  column takes a string and an integer column an integer; a commit whose row
  carries anything else, \<^verbatim>\<open>null\<close> included, is refused. The \<^verbatim>\<open>JSONB\<close> column
  \<^verbatim>\<open>dependencies\<close> takes any JSON value.
\<close>

definition col_str :: "json \<Rightarrow> string option" where
  "col_str v = (case v of JStr s \<Rightarrow> Some s | _ \<Rightarrow> None)"

definition col_int :: "json \<Rightarrow> int option" where
  "col_int v = (case v of JInt i \<Rightarrow> Some i | _ \<Rightarrow> None)"

subsection \<open>The endpoints that write (\<^verbatim>\<open>app/api/routes.py\<close>)\<close>

text \<open>
  The request body of \<^verbatim>\<open>/research/start\<close> is taken at the types the endpoint is
  meant for: a prompt string, if the key is there, and a list of attachments.
\<close>

record payload =
  p_prompt :: "string option"
  p_attachments :: "attachment list"

datatype reply =
    Body_error string
  | Session_created int
  | Branch_status int string
  | HTTPException nat string
  | Unhandled error

text \<open>
  The row that \<^verbatim>\<open>ResearchTask(branch_id=..., description=task_data.get(...), ...)\<close>
  becomes when it is flushed with primary key \<open>tid\<close>; \<open>None\<close> when a column
  refuses its value.
\<close>

definition task_record :: "int \<Rightarrow> int \<Rightarrow> (string \<times> json) list \<Rightarrow> research_task option" where
  "task_record tid bid task_data =
     (case (col_str (dict_get task_data ''description'' (JStr [])),
            col_str (dict_get task_data ''assigned_to'' (JStr ''Agent'')),
            col_str (dict_get task_data ''status'' (JStr ''pending'')),
            col_int (dict_get task_data ''priority'' (JInt 5))) of
        (Some description, Some assigned_to, Some status, Some priority) \<Rightarrow>
          Some \<lparr>t_id = tid, t_branch_id = bid, t_description = description,
                t_assigned_to = assigned_to, t_status = status, t_priority = priority,
                t_result = None, t_python_code = None, t_experiment_spec = None,
                t_dependencies =
                  (let deps = dict_get task_data ''dependencies'' JNull
                   in if truthy deps then deps else JList [])\<rparr>
      | _ \<Rightarrow> None)"

text \<open>
  The commit after the inner loop: the tasks added for one branch are
  inserted together, in the order they were added, or not at all.
\<close>

fun insert_tasks :: "int \<Rightarrow> (string \<times> json) list list \<Rightarrow> research_task list \<Rightarrow> research_task list option" where
  "insert_tasks bid [] ts = Some ts"
| "insert_tasks bid (task_data # rest) ts =
     (case task_record (next_id (map t_id ts)) bid task_data of
        None \<Rightarrow> None
      | Some t \<Rightarrow> insert_tasks bid rest (ts @ [t]))"

text \<open>One round of \<^verbatim>\<open>for branch_data in branches\<close>.\<close>

definition persist_branch :: "int \<Rightarrow> json \<Rightarrow> db \<Rightarrow> db \<times> error option" where
  "persist_branch sid branch_data d =
     (case as_dict branch_data of
        None \<Rightarrow> (d, Some AttributeError)
      | Some bd \<Rightarrow>
          (case col_str (dict_get bd ''name'' (JStr ''Branch'')) of
             None \<Rightarrow> (d, Some DBAPIError)
           | Some name \<Rightarrow>
               (let bid = next_id (map b_id (branches d));
                    d1 = d\<lparr>branches := branches d @
                           [\<lparr>b_id = bid, b_session_id = sid, b_name = name, b_status = ''active''\<rparr>]\<rparr>
                in case iterate (dict_get bd ''tasks'' (JList [])) of
                     Inl err \<Rightarrow> (d1, Some err)
                   | Inr items \<Rightarrow>
                       (case those (map as_dict items) of
                          None \<Rightarrow> (d1, Some AttributeError)
                        | Some task_datas \<Rightarrow>
                            (case insert_tasks bid task_datas (tasks d1) of
                               None \<Rightarrow> (d1, Some DBAPIError)
                             | Some ts \<Rightarrow> (d1\<lparr>tasks := ts\<rparr>, None))))))"

fun persist_branches :: "int \<Rightarrow> json list \<Rightarrow> db \<Rightarrow> db \<times> error option" where
  "persist_branches sid [] d = (d, None)"
| "persist_branches sid (branch_data # rest) d =
     (case persist_branch sid branch_data d of
        (d', Some err) \<Rightarrow> (d', Some err)
      | (d', None) \<Rightarrow> persist_branches sid rest d')"

text \<open>
  \<^verbatim>\<open>start_research\<close>. \<^verbatim>\<open>run_research_loop.delay(id)\<close> puts the session id on the
  worker queue; the loop itself runs later, in the worker.
\<close>

definition start_research :: "env \<Rightarrow> payload \<Rightarrow> world \<Rightarrow> world \<times> reply" where
  "start_research e pl w =
     (let prompt = strip (case p_prompt pl of None \<Rightarrow> [] | Some s \<Rightarrow> s);
          attachments = p_attachments pl
      in if prompt = [] then (w, Body_error ''prompt is required'')
         else
           (let new_id = next_id (map s_id (sessions (store w)));
                w1 = map_store (\<lambda>d. d\<lparr>sessions := sessions d @
                       [\<lparr>s_id = new_id, s_original_prompt = prompt, s_status = ''pending'',
                         s_final_synthesis = None\<rparr>]\<rparr>) w
            in case orchestrate_plan e prompt attachments w1 of
                 (w2, Inl (QuotaExhaustedError msg)) \<Rightarrow>
                   (map_store (set_session_status new_id ''failed'') w2, HTTPException 503 msg)
               | (w2, Inl err) \<Rightarrow> (w2, Unhandled err)
               | (w2, Inr plan) \<Rightarrow>
                   (case persist_branches new_id plan (store w2) of
                      (d3, Some err) \<Rightarrow> (w2\<lparr>store := d3\<rparr>, Unhandled err)
                    | (d3, None) \<Rightarrow>
                        (w2\<lparr>store := d3, queue := queue w2 @ [new_id]\<rparr>, Session_created new_id))))"

text \<open>\<^verbatim>\<open>pause_branch\<close>: the toggle between \<^verbatim>\<open>paused\<close> and \<^verbatim>\<open>active\<close>.\<close>

definition pause_branch :: "int \<Rightarrow> world \<Rightarrow> world \<times> reply" where
  "pause_branch branch_id w =
     (case one_or_none (filter (\<lambda>b. b_id b = branch_id) (branches (store w))) of
        Inl err \<Rightarrow> (w, Unhandled err)
      | Inr None \<Rightarrow> (w, Body_error ''branch not found'')
      | Inr (Some branch) \<Rightarrow>
          (let st = (if b_status branch \<noteq> ''paused'' then ''paused'' else ''active'')
           in (map_store (\<lambda>d. d\<lparr>branches := map (\<lambda>b. if b_id b = branch_id
                                                      then b\<lparr>b_status := st\<rparr> else b)
                                            (branches d)\<rparr>) w,
               Branch_status branch_id st)))"

subsection \<open>Plans of the expected shape\<close>

text \<open>
  The shape the planning prompt asks for. A branch descriptor is an object
  with an optional string \<^verbatim>\<open>name\<close> and an optional list \<^verbatim>\<open>tasks\<close> of task
  descriptors; a task descriptor is an object whose \<^verbatim>\<open>description\<close>,
  \<^verbatim>\<open>assigned_to\<close> and \<^verbatim>\<open>status\<close>, when present, are strings and whose
  \<^verbatim>\<open>priority\<close>, when present, is an integer.
\<close>

definition field :: "json \<Rightarrow> string \<Rightarrow> json option" where
  "field v k = (case v of JDict kv \<Rightarrow> map_of kv k | _ \<Rightarrow> None)"

definition is_dict :: "json \<Rightarrow> bool" where
  "is_dict v = (case v of JDict kv \<Rightarrow> True | _ \<Rightarrow> False)"

definition absent_or_str :: "json \<Rightarrow> string \<Rightarrow> bool" where
  "absent_or_str v k = (case field v k of None \<Rightarrow> True | Some (JStr s) \<Rightarrow> True | Some _ \<Rightarrow> False)"

definition absent_or_int :: "json \<Rightarrow> string \<Rightarrow> bool" where
  "absent_or_int v k = (case field v k of None \<Rightarrow> True | Some (JInt i) \<Rightarrow> True | Some _ \<Rightarrow> False)"

definition task_descriptor :: "json \<Rightarrow> bool" where
  "task_descriptor td \<longleftrightarrow>
     is_dict td \<and> absent_or_str td ''description'' \<and> absent_or_str td ''assigned_to'' \<and>
     absent_or_str td ''status'' \<and> absent_or_int td ''priority''"

definition descriptor_tasks :: "json \<Rightarrow> json list" where
  "descriptor_tasks bd = (case field bd ''tasks'' of Some (JList items) \<Rightarrow> items | _ \<Rightarrow> [])"

definition branch_descriptor :: "json \<Rightarrow> bool" where
  "branch_descriptor bd \<longleftrightarrow>
     is_dict bd \<and> absent_or_str bd ''name'' \<and>
     (case field bd ''tasks'' of
        None \<Rightarrow> True
      | Some (JList items) \<Rightarrow> list_all task_descriptor items
      | Some _ \<Rightarrow> False)"

text \<open>
  The records the specification asks for, in its words: a branch record of
  the session with status \<^verbatim>\<open>active\<close>; a task record of the branch whose
  status is \<^verbatim>\<open>pending\<close> when the descriptor has none, whose priority is 5 when
  the descriptor has none, whose dependency list is empty when the descriptor
  has none, and which has no result yet.
\<close>

definition branch_follows :: "int \<Rightarrow> json \<Rightarrow> research_branch \<Rightarrow> bool" where
  "branch_follows sid bd b \<longleftrightarrow>
     b_session_id b = sid \<and> b_status b = ''active'' \<and>
     (field bd ''name'' = None \<longrightarrow> b_name b = ''Branch'') \<and>
     (\<forall>s. field bd ''name'' = Some (JStr s) \<longrightarrow> b_name b = s)"

definition task_follows :: "int \<Rightarrow> json \<Rightarrow> research_task \<Rightarrow> bool" where
  "task_follows bid td t \<longleftrightarrow>
     t_branch_id t = bid \<and>
     (field td ''status'' = None \<longrightarrow> t_status t = ''pending'') \<and>
     (\<forall>s. field td ''status'' = Some (JStr s) \<longrightarrow> t_status t = s) \<and>
     (field td ''priority'' = None \<longrightarrow> t_priority t = 5) \<and>
     (\<forall>p. field td ''priority'' = Some (JInt p) \<longrightarrow> t_priority t = p) \<and>
     (field td ''dependencies'' = None \<longrightarrow> t_dependencies t = JList []) \<and>
     (\<forall>v. field td ''dependencies'' = Some v \<longrightarrow>
          t_dependencies t = (if truthy v then v else JList [])) \<and>
     (field td ''description'' = None \<longrightarrow> t_description t = []) \<and>
     (\<forall>s. field td ''description'' = Some (JStr s) \<longrightarrow> t_description t = s) \<and>
     (field td ''assigned_to'' = None \<longrightarrow> t_assigned_to t = ''Agent'') \<and>
     (\<forall>s. field td ''assigned_to'' = Some (JStr s) \<longrightarrow> t_assigned_to t = s) \<and>
     t_result t = None \<and> t_python_code t = None \<and> t_experiment_spec t = None"

subsection \<open>A session to run the definitions on\<close>

text \<open>
  Session 1 has two branches. Branch 1 is active and owns task A (priority 8)
  and task B (priority 3). Branch 2 is paused and owns task C (priority 9),
  which names a dependency that no task has finished. All three are pending.
\<close>

definition task_a :: research_task where
  "task_a = \<lparr>t_id = 1, t_branch_id = 1, t_description = ''A'', t_assigned_to = ''Physicist'',
              t_status = ''pending'', t_priority = 8, t_result = None, t_python_code = None,
              t_experiment_spec = None, t_dependencies = JList []\<rparr>"

definition task_b :: research_task where
  "task_b = \<lparr>t_id = 2, t_branch_id = 1, t_description = ''B'', t_assigned_to = ''Chemist'',
              t_status = ''pending'', t_priority = 3, t_result = None, t_python_code = None,
              t_experiment_spec = None, t_dependencies = JList []\<rparr>"

definition task_c :: research_task where
  "task_c = \<lparr>t_id = 3, t_branch_id = 2, t_description = ''C'', t_assigned_to = ''Biologist'',
              t_status = ''pending'', t_priority = 9, t_result = None, t_python_code = None,
              t_experiment_spec = None, t_dependencies = JList [JStr ''task-9'']\<rparr>"

definition session_x :: research_session where
  "session_x = \<lparr>s_id = 1, s_original_prompt = ''X'', s_status = ''pending'',
                 s_final_synthesis = None\<rparr>"

definition fact_1 :: knowledge_fact where
  "fact_1 = \<lparr>f_id = 1, f_session_id = 1, f_content = ''water is wet'',
              f_source_agent = ''Chemist'', f_confidence = 50\<rparr>"

definition db_x :: db where
  "db_x = \<lparr>sessions = [session_x],
            branches = [\<lparr>b_id = 1, b_session_id = 1, b_name = ''B1'', b_status = ''active''\<rparr>,
                        \<lparr>b_id = 2, b_session_id = 1, b_name = ''B2'', b_status = ''paused''\<rparr>],
            tasks = [task_a, task_b, task_c],
            logs = [],
            facts = [fact_1]\<rparr>"

definition world_x :: world where
  "world_x = \<lparr>store = db_x, events = [], queue = []\<rparr>"

text \<open>
  Three environments: one whose client always answers, one that has no API
  key, and one whose client refuses the call with index \<open>k\<close> for quota.
\<close>

definition env_ok :: env where
  "env_ok = \<lparr>api_key = Some ''key'',
             generate_content = (\<lambda>n c. Returned \<lparr>r_text = Some ''report'', r_grounding_uris = []\<rparr>),
             extract_json = (\<lambda>raw. None)\<rparr>"

definition env_no_key :: env where
  "env_no_key = env_ok\<lparr>api_key := None\<rparr>"

definition env_quota_at :: "nat \<Rightarrow> env" where
  "env_quota_at k = env_ok\<lparr>generate_content := (\<lambda>n c.
     if n = k then Raised ''429 RESOURCE_EXHAUSTED''
     else Returned \<lparr>r_text = Some ''report'', r_grounding_uris = []\<rparr>)\<rparr>"

text \<open>
  A plan of two branches: the first is named and has two tasks, one of which
  gives only a description and a priority and the other nothing at all; the
  second branch is an empty object. An environment whose parser reads that
  plan.
\<close>

definition plan_x :: "json list" where
  "plan_x =
     [JDict [(''name'', JStr ''B1''),
             (''tasks'', JList [JDict [(''description'', JStr ''A''), (''priority'', JInt 8)],
                                JDict []])],
      JDict []]"

definition env_plan :: env where
  "env_plan = env_ok\<lparr>extract_json := (\<lambda>raw. Some (JList plan_x))\<rparr>"

text \<open>The environment whose second call is refused.\<close>

definition env_quota_second :: env where
  "env_quota_second = env_quota_at 1"

text \<open>
  A session whose plan came back empty, the same session once the worker has
  marked it \<^verbatim>\<open>running\<close>, and the same session marked \<^verbatim>\<open>failed\<close>, as a
  planning call refused for quota leaves it.
\<close>

definition world_idle :: world where
  "world_idle = \<lparr>store = \<lparr>sessions = [session_x], branches = [], tasks = [], logs = [],
                           facts = []\<rparr>,
                 events = [], queue = []\<rparr>"

definition world_started :: world where
  "world_started = map_store (set_session_status 1 ''running'') world_idle"

definition world_halted :: world where
  "world_halted = \<lparr>store = \<lparr>sessions = [session_x\<lparr>s_status := ''failed''\<rparr>], branches = [],
                             tasks = [], logs = [], facts = []\<rparr>,
                   events = [], queue = []\<rparr>"

section \<open>The loop of the worker\<close>

subsection \<open>What the scheduler's query returns\<close>

lemma set_pending_rows: "set (pending_rows sid d) = {t. is_pending_in sid d t}"
  by (auto simp: pending_rows_def rows_for_def is_pending_in_def split: if_splits)

lemma set_pending_queue: "set (pending_queue sid d) = {t. is_pending_in sid d t}"
  by (simp add: pending_queue_def set_pending_rows)

lemma sorted_pending_queue: "sorted (map task_key (pending_queue sid d))"
  by (simp add: pending_queue_def)

lemma select_next_None_iff: "select_next sid d = None \<longleftrightarrow> (\<forall>t. \<not> is_pending_in sid d t)"
proof -
  have "select_next sid d = None \<longleftrightarrow> pending_queue sid d = []"
    by (simp add: select_next_def first_row_def split: list.splits)
  also have "\<dots> \<longleftrightarrow> set (pending_queue sid d) = {}"
    by simp
  also have "\<dots> \<longleftrightarrow> (\<forall>t. \<not> is_pending_in sid d t)"
    by (simp add: set_pending_queue)
  finally show ?thesis .
qed

lemma select_next_Some_min:
  assumes "select_next sid d = Some t"
  shows "is_pending_in sid d t"
    and "is_pending_in sid d u \<Longrightarrow> task_key t \<le> task_key u"
proof -
  from assms obtain rest where q: "pending_queue sid d = t # rest"
    by (auto simp: select_next_def first_row_def split: list.splits)
  have "t \<in> set (pending_queue sid d)"
    by (simp add: q)
  then show "is_pending_in sid d t"
    by (simp add: set_pending_queue)
  assume "is_pending_in sid d u"
  then have "u \<in> set (pending_queue sid d)"
    by (simp add: set_pending_queue)
  moreover have "sorted (map task_key (t # rest))"
    using sorted_pending_queue [of sid d] by (simp add: q)
  ultimately show "task_key t \<le> task_key u"
    by (auto simp: q)
qed

lemma task_key_le_iff:
  "task_key t \<le> task_key u \<longleftrightarrow>
     t_priority u < t_priority t \<or> (t_priority u = t_priority t \<and> t_id t \<le> t_id u)"
  by (auto simp: task_key_def less_eq_prod_def)

subsection \<open>The loop and its termination\<close>

text \<open>
  The loop comes back to its query only after a round that ended without an
  exception. No round does: the body is left by the read of line 82.
\<close>

lemma execute_task_raises:
  "execute_task e sid task w = (map_store (mark_running (t_id task)) w, Some MissingGreenlet)"
  by (simp add: execute_task_def read_expired_def)

lemma synthesis_step_raises:
  "synthesis_step e sid research_session w = (w, Some MissingGreenlet)"
  by (simp add: synthesis_step_def read_expired_def)

function execute_research_loop ::
  "env \<Rightarrow> int \<Rightarrow> research_session \<Rightarrow> world \<Rightarrow> world \<times> error option" where
  "execute_research_loop e sid research_session w =
     (case select_next sid (store w) of
        None \<Rightarrow> synthesis_step e sid research_session w
      | Some task \<Rightarrow>
          (case execute_task e sid task w of
             (w', Some err) \<Rightarrow> (w', Some err)
           | (w', None) \<Rightarrow> execute_research_loop e sid research_session w'))"
  by pat_completeness auto
termination
proof (relation "measure (\<lambda>(e, sid, rs, w). length (pending_rows sid (store w)))")
  show "wf (measure (\<lambda>(e, sid, rs, w). length (pending_rows sid (store w))))" by simp
next
  fix e :: env and sid :: int and research_session :: research_session and w task w' r
  assume "(w', r) = execute_task e sid task w" "r = None"
  then have False
    by (simp add: execute_task_raises)
  then show "((e, sid, research_session, w'), (e, sid, research_session, w))
       \<in> measure (\<lambda>(e, sid, rs, w). length (pending_rows sid (store w)))" ..
qed

declare execute_research_loop.simps [simp del]

text \<open>
  The function above is the one that lines 54 to 119 define. Its
  \<^verbatim>\<open>async def\<close> statement stands in the body of \<^verbatim>\<open>_run\<close>, after the
  \<^verbatim>\<open>async with\<close> block. So \<^verbatim>\<open>_execute_research_loop\<close> is a local name of
  \<^verbatim>\<open>_run\<close> that is bound only when control reaches line 54, and the call on
  line 38, inside the \<^verbatim>\<open>async with\<close> block, finds it unbound: evaluating the
  name raises \<^verbatim>\<open>UnboundLocalError\<close> before anything of the loop runs.
\<close>

definition call_on_line_38 ::
  "env \<Rightarrow> int \<Rightarrow> research_session \<Rightarrow> world \<Rightarrow> world \<times> error option" where
  "call_on_line_38 e sid research_session w = (w, Some UnboundLocalError)"

text \<open>
  \<^verbatim>\<open>run_research_loop\<close>. Only \<^verbatim>\<open>QuotaExhaustedError\<close> is caught; any other
  exception leaves the function, and the database stays as the last commit
  left it.
\<close>

definition session_rows :: "int \<Rightarrow> db \<Rightarrow> research_session list" where
  "session_rows sid d = filter (\<lambda>s. s_id s = sid) (sessions d)"

definition run_research_loop :: "env \<Rightarrow> int \<Rightarrow> world \<Rightarrow> world \<times> error option" where
  "run_research_loop e session_id w =
     (case one_or_none (session_rows session_id (store w)) of
        Inl err \<Rightarrow> (w, Some err)
      | Inr None \<Rightarrow> (w, None)
      | Inr (Some research_session) \<Rightarrow>
          (let w1 = map_store (set_session_status session_id ''running'') w
           in case call_on_line_38 e session_id research_session w1 of
                (w2, Some (QuotaExhaustedError msg)) \<Rightarrow>
                  (let w3 = map_store (set_session_status session_id ''failed'') w2;
                       w4 = map_store (add_log session_id ''System''
                              (''Research halted: '' @ msg) ''error'') w3
                   in (w4, None))
              | (w2, r) \<Rightarrow> (w2, r)))"

section \<open>Properties\<close>

lemmas example_defs =
  db_x_def task_a_def task_b_def task_c_def session_x_def fact_1_def world_x_def
  env_ok_def env_no_key_def env_quota_at_def world_idle_def world_halted_def
  plan_x_def env_plan_def env_quota_second_def world_started_def


subsection \<open>Scheduler\<close>

text \<open>
  C1. The scheduler returns none exactly when the session has no pending
  task. When it returns a task, that task is a pending task of the session,
  no pending task of the session has a higher priority, and among the pending
  tasks of the same priority none has a smaller id.
\<close>

theorem select_next_max_priority_min_id:
  "(select_next sid d = None \<longleftrightarrow> (\<forall>t. \<not> is_pending_in sid d t)) \<and>
   (\<forall>t. select_next sid d = Some t \<longrightarrow>
      is_pending_in sid d t \<and>
      (\<forall>u. is_pending_in sid d u \<longrightarrow>
         t_priority u \<le> t_priority t \<and>
         (t_priority u = t_priority t \<longrightarrow> t_id t \<le> t_id u)))"
proof (intro conjI allI impI)
  show "select_next sid d = None \<longleftrightarrow> (\<forall>t. \<not> is_pending_in sid d t)"
    by (rule select_next_None_iff)
next
  fix t assume "select_next sid d = Some t"
  then show "is_pending_in sid d t"
    by (rule select_next_Some_min(1))
next
  fix t u
  assume sel: "select_next sid d = Some t" and u: "is_pending_in sid d u"
  have "task_key t \<le> task_key u"
    using sel u by (rule select_next_Some_min(2))
  then show "t_priority u \<le> t_priority t"
    by (auto simp: task_key_le_iff)
next
  fix t u
  assume sel: "select_next sid d = Some t" and u: "is_pending_in sid d u"
    and eq: "t_priority u = t_priority t"
  have "task_key t \<le> task_key u"
    using sel u by (rule select_next_Some_min(2))
  with eq show "t_id t \<le> t_id u"
    by (auto simp: task_key_le_iff)
qed

theorem select_next_witness:
  "select_next 1 db_x = Some task_c \<and> is_pending_in 1 db_x task_c \<and>
   is_pending_in 1 db_x task_a \<and> t_priority task_a \<le> t_priority task_c \<and>
   select_next 2 db_x = None \<and> (\<forall>t. \<not> is_pending_in 2 db_x t)"
proof -
  have sel: "select_next 1 db_x = Some task_c"
    by (simp add: select_next_def pending_queue_def pending_rows_def rows_for_def first_row_def
        task_key_def example_defs less_eq_prod_def)
  have a: "is_pending_in 1 db_x task_a"
    by (simp add: is_pending_in_def example_defs)
  have none: "select_next 2 db_x = None"
    by (simp add: select_next_def pending_queue_def pending_rows_def rows_for_def first_row_def
        task_key_def example_defs)
  from select_next_max_priority_min_id [of 1 db_x] sel a
  have "is_pending_in 1 db_x task_c" "t_priority task_a \<le> t_priority task_c"
    by blast+
  moreover from select_next_max_priority_min_id [of 2 db_x] none
  have "\<forall>t. \<not> is_pending_in 2 db_x t"
    by blast
  ultimately show ?thesis
    using sel a none by blast
qed

subsection \<open>The loop's entry point\<close>

text \<open>
  C10. When no stored session carries the given id, the entry point returns
  at once: the world it returns is the world it was given, so no session,
  task, log or fact has been written and no service function has been
  invoked.
\<close>

theorem run_research_loop_unknown_session:
  assumes "\<forall>s \<in> set (sessions (store w)). s_id s \<noteq> session_id"
  shows "run_research_loop e session_id w = (w, None)"
proof -
  have "session_rows session_id (store w) = []"
    using assms by (auto simp: session_rows_def filter_empty_conv)
  then show ?thesis
    by (simp add: run_research_loop_def)
qed

theorem run_research_loop_unknown_session_witness:
  "run_research_loop env_ok 7 world_x = (world_x, None)"
  using run_research_loop_unknown_session [of world_x 7 env_ok]
  by (simp add: example_defs)

subsection \<open>Session creation\<close>

lemma le_fold_max: "x \<in> set ids \<Longrightarrow> x \<le> fold max ids (a::int)"
proof (induction ids arbitrary: a)
  case Nil
  then show ?case by simp
next
  case (Cons y ys)
  have mono: "b \<le> fold max ys b" for b :: int
    by (induction ys arbitrary: b) (auto intro: order_trans [OF max.cobounded2])
  show ?case
  proof (cases "x = y")
    case True
    have "y \<le> max y a" by simp
    also have "\<dots> \<le> fold max ys (max y a)" by (rule mono)
    finally show ?thesis using True by simp
  next
    case False
    with Cons show ?thesis by simp
  qed
qed

lemma next_id_fresh: "x \<in> set ids \<Longrightarrow> x < next_id ids"
  using le_fold_max [of x ids 0] by (simp add: next_id_def)

lemma set_session_status_fresh:
  "\<forall>s \<in> set ss. s_id s \<noteq> sid \<Longrightarrow>
   map (\<lambda>s. if s_id s = sid then s\<lparr>s_status := st\<rparr> else s) ss = ss"
  by (induction ss) auto

lemma orchestrate_plan_world:
  assumes "orchestrate_plan e p atts w = (w', r)"
  shows "events w' = events w @ [(OrchestratePlan p atts, store w)]"
    and "store w' = store w" and "queue w' = queue w"
  using assms
  by (auto simp: orchestrate_plan_def invoke_def Let_def
      split: sum.splits client_result.splits option.splits json.splits)

lemma orchestrate_plan_quota:
  assumes "api_key e = Some k" "k \<noteq> []"
    and "generate_content e (length (events w)) (OrchestratePlan p atts) = Raised msg"
    and "is_quota_message msg"
  shows "snd (orchestrate_plan e p atts w) =
     Inl (QuotaExhaustedError
       (''Gemini API quota exhausted during orchestrate_plan. '' @
        ''Please wait for quota reset or upgrade to a paid plan. '' @
        ''See: https://ai.google.dev/pricing''))"
  using assms
  by (simp add: orchestrate_plan_def get_client_def handle_gemini_error_def Let_def)

lemma quota_message_429: "is_quota_message ''429 RESOURCE_EXHAUSTED''"
  by code_simp

text \<open>
  C7. When the client refuses the planning call with a message that
  \<^verbatim>\<open>_handle_gemini_error\<close> reads as quota exhaustion, \<^verbatim>\<open>start_research\<close> answers
  with the HTTP error 503 carrying the quota message. The session it had
  just created is stored as \<^verbatim>\<open>failed\<close>; the branch and task tables are as
  before, and nothing is put on the worker queue.
\<close>

theorem start_research_quota:
  assumes prompt: "strip (case p_prompt pl of None \<Rightarrow> [] | Some s \<Rightarrow> s) \<noteq> []"
    and key: "api_key e = Some k" "k \<noteq> []"
    and raised: "generate_content e (length (events w))
                   (OrchestratePlan (strip (case p_prompt pl of None \<Rightarrow> [] | Some s \<Rightarrow> s))
                      (p_attachments pl)) = Raised msg"
    and quota: "is_quota_message msg"
  shows "\<exists>w'. start_research e pl w =
           (w', HTTPException 503
                  (''Gemini API quota exhausted during orchestrate_plan. '' @
                   ''Please wait for quota reset or upgrade to a paid plan. '' @
                   ''See: https://ai.google.dev/pricing'')) \<and>
           sessions (store w') = sessions (store w) @
             [\<lparr>s_id = next_id (map s_id (sessions (store w))),
               s_original_prompt = strip (case p_prompt pl of None \<Rightarrow> [] | Some s \<Rightarrow> s),
               s_status = ''failed'', s_final_synthesis = None\<rparr>] \<and>
           branches (store w') = branches (store w) \<and>
           tasks (store w') = tasks (store w) \<and>
           queue w' = queue w"
proof -
  let ?prompt = "strip (case p_prompt pl of None \<Rightarrow> [] | Some s \<Rightarrow> s)"
  let ?new = "next_id (map s_id (sessions (store w)))"
  let ?row = "\<lparr>s_id = ?new, s_original_prompt = ?prompt, s_status = ''pending'',
               s_final_synthesis = None\<rparr>"
  let ?w1 = "map_store (\<lambda>d. d\<lparr>sessions := sessions d @ [?row]\<rparr>) w"
  let ?msg = "''Gemini API quota exhausted during orchestrate_plan. '' @
                   ''Please wait for quota reset or upgrade to a paid plan. '' @
                   ''See: https://ai.google.dev/pricing''"
  obtain w2 r where plan: "orchestrate_plan e ?prompt (p_attachments pl) ?w1 = (w2, r)"
    by (cases "orchestrate_plan e ?prompt (p_attachments pl) ?w1")
  have ev1: "events ?w1 = events w"
    by (simp add: map_store_def)
  have "snd (orchestrate_plan e ?prompt (p_attachments pl) ?w1) = Inl (QuotaExhaustedError ?msg)"
  proof (rule orchestrate_plan_quota [OF key _ quota])
    show "generate_content e (length (events ?w1)) (OrchestratePlan ?prompt (p_attachments pl))
            = Raised msg"
      unfolding ev1 by (rule raised)
  qed
  then have r: "r = Inl (QuotaExhaustedError ?msg)"
    unfolding plan by simp
  have run: "start_research e pl w =
      (map_store (set_session_status ?new ''failed'') w2, HTTPException 503 ?msg)"
    using prompt unfolding start_research_def Let_def plan r by simp
  have st2: "store w2 = store ?w1" and q2: "queue w2 = queue ?w1"
    using orchestrate_plan_world [OF plan] by simp_all
  have fresh: "\<forall>s \<in> set (sessions (store w)). s_id s \<noteq> ?new"
    using next_id_fresh [of _ "map s_id (sessions (store w))"] by fastforce
  have sess: "sessions (store (map_store (set_session_status ?new ''failed'') w2)) =
      sessions (store w) @ [?row\<lparr>s_status := ''failed''\<rparr>]"
    using set_session_status_fresh [OF fresh, of "''failed''"]
    by (simp add: map_store_def set_session_status_def st2)
  show ?thesis
    unfolding run using sess
    by (simp add: map_store_def set_session_status_def st2 q2)
qed

theorem start_research_quota_witness:
  "snd (start_research (env_quota_at 0) \<lparr>p_prompt = Some '' dark matter '', p_attachments = []\<rparr> world_x)
     = HTTPException 503
         (''Gemini API quota exhausted during orchestrate_plan. '' @
          ''Please wait for quota reset or upgrade to a paid plan. '' @
          ''See: https://ai.google.dev/pricing'') \<and>
   sessions (store (fst (start_research (env_quota_at 0)
       \<lparr>p_prompt = Some '' dark matter '', p_attachments = []\<rparr> world_x))) =
     [session_x,
      \<lparr>s_id = 2, s_original_prompt = ''dark matter'', s_status = ''failed'',
        s_final_synthesis = None\<rparr>] \<and>
   branches (store (fst (start_research (env_quota_at 0)
       \<lparr>p_prompt = Some '' dark matter '', p_attachments = []\<rparr> world_x))) = branches db_x \<and>
   tasks (store (fst (start_research (env_quota_at 0)
       \<lparr>p_prompt = Some '' dark matter '', p_attachments = []\<rparr> world_x))) = tasks db_x \<and>
   queue (fst (start_research (env_quota_at 0)
       \<lparr>p_prompt = Some '' dark matter '', p_attachments = []\<rparr> world_x)) = []"
proof -
  let ?pl = "\<lparr>p_prompt = Some '' dark matter '', p_attachments = []\<rparr>"
  have strip: "strip (case p_prompt ?pl of None \<Rightarrow> [] | Some s \<Rightarrow> s) = ''dark matter''"
    by (simp add: strip_def is_space_def)
  have prompt: "strip (case p_prompt ?pl of None \<Rightarrow> [] | Some s \<Rightarrow> s) \<noteq> []"
    unfolding strip by simp
  have key: "api_key (env_quota_at 0) = Some ''key''" "''key'' \<noteq> []"
    by (simp_all add: env_quota_at_def env_ok_def)
  have raised: "generate_content (env_quota_at 0) (length (events world_x))
                   (OrchestratePlan (strip (case p_prompt ?pl of None \<Rightarrow> [] | Some s \<Rightarrow> s))
                      (p_attachments ?pl)) = Raised ''429 RESOURCE_EXHAUSTED''"
    by (simp add: env_quota_at_def env_ok_def world_x_def)
  have ids: "next_id (map s_id (sessions (store world_x))) = 2"
    by (simp add: next_id_def world_x_def db_x_def session_x_def)
  from start_research_quota [OF prompt key raised quota_message_429]
  show ?thesis
    unfolding strip ids by (auto simp: world_x_def db_x_def)
qed

subsection \<open>The plan builder\<close>

lemma col_str_field:
  assumes "absent_or_str (JDict kv) k"
  shows "\<exists>s. col_str (dict_get kv k (JStr dflt)) = Some s \<and>
             (field (JDict kv) k = None \<longrightarrow> s = dflt) \<and>
             (\<forall>s'. field (JDict kv) k = Some (JStr s') \<longrightarrow> s = s')"
  using assms
  by (auto simp: absent_or_str_def field_def dict_get_def col_str_def
      split: option.splits json.splits)

lemma col_int_field:
  assumes "absent_or_int (JDict kv) k"
  shows "\<exists>i. col_int (dict_get kv k (JInt dflt)) = Some i \<and>
             (field (JDict kv) k = None \<longrightarrow> i = dflt) \<and>
             (\<forall>i'. field (JDict kv) k = Some (JInt i') \<longrightarrow> i = i')"
  using assms
  by (auto simp: absent_or_int_def field_def dict_get_def col_int_def
      split: option.splits json.splits)

lemma dependencies_field:
  "(field (JDict kv) ''dependencies'' = None \<longrightarrow>
      (let deps = dict_get kv ''dependencies'' JNull in if truthy deps then deps else JList []) = JList []) \<and>
   (\<forall>v. field (JDict kv) ''dependencies'' = Some v \<longrightarrow>
      (let deps = dict_get kv ''dependencies'' JNull in if truthy deps then deps else JList [])
        = (if truthy v then v else JList []))"
  by (simp add: field_def dict_get_def)

lemma task_record_descriptor:
  assumes "task_descriptor (JDict kv)"
  shows "\<exists>t. task_record tid bid kv = Some t \<and> t_id t = tid \<and> task_follows bid (JDict kv) t"
proof -
  from assms have a: "absent_or_str (JDict kv) ''description''"
    "absent_or_str (JDict kv) ''assigned_to''" "absent_or_str (JDict kv) ''status''"
    "absent_or_int (JDict kv) ''priority''"
    by (simp_all add: task_descriptor_def)
  from col_str_field [OF a(1), of "[]"] obtain d where
    d: "col_str (dict_get kv ''description'' (JStr [])) = Some d"
      "field (JDict kv) ''description'' = None \<longrightarrow> d = []"
      "\<forall>s'. field (JDict kv) ''description'' = Some (JStr s') \<longrightarrow> d = s'"
    by auto
  from col_str_field [OF a(2), of "''Agent''"] obtain r where
    r: "col_str (dict_get kv ''assigned_to'' (JStr ''Agent'')) = Some r"
      "field (JDict kv) ''assigned_to'' = None \<longrightarrow> r = ''Agent''"
      "\<forall>s'. field (JDict kv) ''assigned_to'' = Some (JStr s') \<longrightarrow> r = s'"
    by auto
  from col_str_field [OF a(3), of "''pending''"] obtain st where
    st: "col_str (dict_get kv ''status'' (JStr ''pending'')) = Some st"
      "field (JDict kv) ''status'' = None \<longrightarrow> st = ''pending''"
      "\<forall>s'. field (JDict kv) ''status'' = Some (JStr s') \<longrightarrow> st = s'"
    by auto
  from col_int_field [OF a(4), of 5] obtain p where
    p: "col_int (dict_get kv ''priority'' (JInt 5)) = Some p"
      "field (JDict kv) ''priority'' = None \<longrightarrow> p = 5"
      "\<forall>i'. field (JDict kv) ''priority'' = Some (JInt i') \<longrightarrow> p = i'"
    by auto
  let ?deps = "(let deps = dict_get kv ''dependencies'' JNull in if truthy deps then deps else JList [])"
  have rec: "task_record tid bid kv =
      Some \<lparr>t_id = tid, t_branch_id = bid, t_description = d, t_assigned_to = r, t_status = st,
            t_priority = p, t_result = None, t_python_code = None, t_experiment_spec = None,
            t_dependencies = ?deps\<rparr>"
    unfolding task_record_def d(1) r(1) st(1) p(1) by simp
  show ?thesis
    unfolding rec task_follows_def
    using d(2,3) r(2,3) st(2,3) p(2,3) dependencies_field [of kv]
    by simp
qed

lemma insert_tasks_descriptors:
  assumes "list_all (\<lambda>kv. task_descriptor (JDict kv)) kvs"
  shows "\<exists>new. insert_tasks bid kvs ts = Some (ts @ new) \<and>
               list_all2 (task_follows bid) (map JDict kvs) new"
  using assms
proof (induction kvs arbitrary: ts)
  case Nil
  then show ?case by simp
next
  case (Cons kv kvs)
  from Cons.prems have kv: "task_descriptor (JDict kv)"
    and rest: "list_all (\<lambda>kv. task_descriptor (JDict kv)) kvs"
    by simp_all
  from task_record_descriptor [OF kv, of "next_id (map t_id ts)" bid]
  obtain t where t: "task_record (next_id (map t_id ts)) bid kv = Some t"
    "task_follows bid (JDict kv) t"
    by blast
  from Cons.IH [OF rest, of "ts @ [t]"]
  obtain new where new: "insert_tasks bid kvs (ts @ [t]) = Some ((ts @ [t]) @ new)"
    "list_all2 (task_follows bid) (map JDict kvs) new"
    by blast
  have "insert_tasks bid (kv # kvs) ts = Some (ts @ (t # new))"
    by (simp add: t(1) new(1))
  moreover have "list_all2 (task_follows bid) (map JDict (kv # kvs)) (t # new)"
    using t(2) new(2) by simp
  ultimately show ?case by blast
qed

lemma those_as_dict:
  assumes "list_all is_dict items"
  shows "\<exists>kvs. those (map as_dict items) = Some kvs \<and> items = map JDict kvs"
  using assms
proof (induction items)
  case Nil
  then show ?case by simp
next
  case (Cons v vs)
  then obtain kvs where kvs: "those (map as_dict vs) = Some kvs" "vs = map JDict kvs"
    by auto
  from Cons.prems obtain kv where v: "v = JDict kv"
    by (cases v) (simp_all add: is_dict_def)
  have "those (map as_dict (v # vs)) = Some (kv # kvs)"
    by (simp add: v as_dict_def kvs(1))
  moreover have "v # vs = map JDict (kv # kvs)"
    by (simp add: v kvs(2))
  ultimately show ?case by (intro exI conjI)
qed

lemma descriptor_items:
  assumes "branch_descriptor (JDict bd)"
  shows "iterate (dict_get bd ''tasks'' (JList [])) = Inr (descriptor_tasks (JDict bd))"
    and "list_all task_descriptor (descriptor_tasks (JDict bd))"
  using assms
  by (auto simp: branch_descriptor_def descriptor_tasks_def field_def dict_get_def
      split: option.splits json.splits)

lemma persist_branch_descriptor:
  assumes "branch_descriptor bd"
  shows "\<exists>b new. persist_branch sid bd d =
                   (d\<lparr>branches := branches d @ [b], tasks := tasks d @ new\<rparr>, None) \<and>
                 branch_follows sid bd b \<and>
                 list_all2 (task_follows (b_id b)) (descriptor_tasks bd) new"
proof -
  from assms obtain kv where bd: "bd = JDict kv"
    by (cases bd) (simp_all add: branch_descriptor_def is_dict_def)
  have name: "absent_or_str (JDict kv) ''name''"
    using assms by (simp add: bd branch_descriptor_def)
  from col_str_field [OF name, of "''Branch''"] obtain n where
    n: "col_str (dict_get kv ''name'' (JStr ''Branch'')) = Some n"
      "field (JDict kv) ''name'' = None \<longrightarrow> n = ''Branch''"
      "\<forall>s'. field (JDict kv) ''name'' = Some (JStr s') \<longrightarrow> n = s'"
    by auto
  let ?bid = "next_id (map b_id (branches d))"
  let ?b = "\<lparr>b_id = ?bid, b_session_id = sid, b_name = n, b_status = ''active''\<rparr>"
  let ?d1 = "d\<lparr>branches := branches d @ [?b]\<rparr>"
  note items = descriptor_items [OF assms [unfolded bd]]
  have dicts: "list_all is_dict (descriptor_tasks (JDict kv))"
    using items(2) by (simp add: list_all_iff task_descriptor_def)
  from those_as_dict [OF dicts] obtain kvs where
    kvs: "those (map as_dict (descriptor_tasks (JDict kv))) = Some kvs"
      "descriptor_tasks (JDict kv) = map JDict kvs"
    by blast
  have "list_all (\<lambda>kv. task_descriptor (JDict kv)) kvs"
    using items(2) by (simp add: kvs(2) list_all_iff)
  from insert_tasks_descriptors [OF this, of ?bid "tasks ?d1"] obtain new where
    new: "insert_tasks ?bid kvs (tasks ?d1) = Some (tasks ?d1 @ new)"
      "list_all2 (task_follows ?bid) (map JDict kvs) new"
    by blast
  have "persist_branch sid bd d = (?d1\<lparr>tasks := tasks ?d1 @ new\<rparr>, None)"
    using new(1) unfolding persist_branch_def bd
    by (simp add: as_dict_def n(1) Let_def items(1) kvs(1))
  then have "persist_branch sid bd d = (d\<lparr>branches := branches d @ [?b], tasks := tasks d @ new\<rparr>, None)"
    by simp
  moreover have "branch_follows sid bd ?b"
    using n(2,3) by (simp add: branch_follows_def bd)
  moreover have "list_all2 (task_follows (b_id ?b)) (descriptor_tasks bd) new"
    using new(2) by (simp add: bd kvs(2))
  ultimately show ?thesis by blast
qed

lemma persist_branches_descriptors:
  assumes "list_all branch_descriptor plan"
  shows "\<exists>nbs tss. persist_branches sid plan d =
                     (d\<lparr>branches := branches d @ nbs, tasks := tasks d @ concat tss\<rparr>, None) \<and>
                   list_all2 (branch_follows sid) plan nbs \<and>
                   list_all2 (\<lambda>(bd, b) ts. list_all2 (task_follows (b_id b)) (descriptor_tasks bd) ts)
                     (zip plan nbs) tss"
  using assms
proof (induction plan arbitrary: d)
  case Nil
  have "persist_branches sid [] d = (d\<lparr>branches := branches d @ [], tasks := tasks d @ concat []\<rparr>, None)"
    by simp
  then show ?case by (intro exI [of _ "[]"]) simp
next
  case (Cons bd plan)
  from Cons.prems have bd: "branch_descriptor bd" and rest: "list_all branch_descriptor plan"
    by simp_all
  from persist_branch_descriptor [OF bd, of sid d] obtain b new where
    one: "persist_branch sid bd d = (d\<lparr>branches := branches d @ [b], tasks := tasks d @ new\<rparr>, None)"
      "branch_follows sid bd b" "list_all2 (task_follows (b_id b)) (descriptor_tasks bd) new"
    by blast
  let ?d1 = "d\<lparr>branches := branches d @ [b], tasks := tasks d @ new\<rparr>"
  from Cons.IH [OF rest, of ?d1] obtain nbs tss where
    more: "persist_branches sid plan ?d1 =
             (?d1\<lparr>branches := branches ?d1 @ nbs, tasks := tasks ?d1 @ concat tss\<rparr>, None)"
      "list_all2 (branch_follows sid) plan nbs"
      "list_all2 (\<lambda>(bd, b) ts. list_all2 (task_follows (b_id b)) (descriptor_tasks bd) ts)
         (zip plan nbs) tss"
    by blast
  have "persist_branches sid (bd # plan) d =
          (d\<lparr>branches := branches d @ (b # nbs), tasks := tasks d @ concat (new # tss)\<rparr>, None)"
    by (simp add: one(1) more(1))
  moreover have "list_all2 (branch_follows sid) (bd # plan) (b # nbs)"
    using one(2) more(2) by simp
  moreover have "list_all2 (\<lambda>(bd, b) ts. list_all2 (task_follows (b_id b)) (descriptor_tasks bd) ts)
         (zip (bd # plan) (b # nbs)) (new # tss)"
    using one(3) more(3) by simp
  ultimately show ?case by blast
qed


lemma orchestrate_plan_returned:
  assumes "api_key e = Some k" "k \<noteq> []"
    and "generate_content e (length (events w)) (OrchestratePlan p atts) = Returned resp"
    and "extract_json e (case r_text resp of None \<Rightarrow> [] | Some s \<Rightarrow> s) = Some (JList plan)"
  shows "snd (orchestrate_plan e p atts w) = Inr plan"
  using assms
  by (simp add: orchestrate_plan_def get_client_def Let_def)

text \<open>
  C8. When planning returns a list of branch descriptors, \<^verbatim>\<open>start_research\<close>
  answers with the new session id and appends to the branch table exactly one
  record per descriptor, in order, each a branch of the new session with
  status \<^verbatim>\<open>active\<close>, and to the task table exactly one record per task
  descriptor of each branch, owned by that branch's record, whose status is
  \<^verbatim>\<open>pending\<close>, whose priority is 5 and whose dependency list is empty
  wherever the descriptor gives none.
\<close>

theorem start_research_persists_plan:
  assumes prompt: "strip (case p_prompt pl of None \<Rightarrow> [] | Some s \<Rightarrow> s) \<noteq> []"
    and key: "api_key e = Some k" "k \<noteq> []"
    and returned: "generate_content e (length (events w))
                   (OrchestratePlan (strip (case p_prompt pl of None \<Rightarrow> [] | Some s \<Rightarrow> s))
                      (p_attachments pl)) = Returned resp"
    and parsed: "extract_json e (case r_text resp of None \<Rightarrow> [] | Some s \<Rightarrow> s) = Some (JList plan)"
    and shape: "list_all branch_descriptor plan"
  shows "\<exists>w' nbs tss.
           start_research e pl w =
             (w', Session_created (next_id (map s_id (sessions (store w))))) \<and>
           branches (store w') = branches (store w) @ nbs \<and>
           tasks (store w') = tasks (store w) @ concat tss \<and>
           list_all2 (branch_follows (next_id (map s_id (sessions (store w))))) plan nbs \<and>
           list_all2 (\<lambda>(bd, b) ts. list_all2 (task_follows (b_id b)) (descriptor_tasks bd) ts)
             (zip plan nbs) tss"
proof -
  let ?prompt = "strip (case p_prompt pl of None \<Rightarrow> [] | Some s \<Rightarrow> s)"
  let ?new = "next_id (map s_id (sessions (store w)))"
  let ?row = "\<lparr>s_id = ?new, s_original_prompt = ?prompt, s_status = ''pending'',
               s_final_synthesis = None\<rparr>"
  let ?w1 = "map_store (\<lambda>d. d\<lparr>sessions := sessions d @ [?row]\<rparr>) w"
  obtain w2 r where planned: "orchestrate_plan e ?prompt (p_attachments pl) ?w1 = (w2, r)"
    by (cases "orchestrate_plan e ?prompt (p_attachments pl) ?w1")
  have ev1: "events ?w1 = events w"
    by (simp add: map_store_def)
  have "snd (orchestrate_plan e ?prompt (p_attachments pl) ?w1) = Inr plan"
  proof (rule orchestrate_plan_returned [OF key _ parsed])
    show "generate_content e (length (events ?w1)) (OrchestratePlan ?prompt (p_attachments pl))
            = Returned resp"
      unfolding ev1 by (rule returned)
  qed
  then have r: "r = Inr plan"
    unfolding planned by simp
  have st2: "store w2 = store ?w1"
    using orchestrate_plan_world [OF planned] by simp
  from persist_branches_descriptors [OF shape, of ?new "store w2"] obtain nbs tss where
    built: "persist_branches ?new plan (store w2) =
              ((store w2)\<lparr>branches := branches (store w2) @ nbs,
                          tasks := tasks (store w2) @ concat tss\<rparr>, None)"
      "list_all2 (branch_follows ?new) plan nbs"
      "list_all2 (\<lambda>(bd, b) ts. list_all2 (task_follows (b_id b)) (descriptor_tasks bd) ts)
         (zip plan nbs) tss"
    by blast
  let ?w' = "w2\<lparr>store := (store w2)\<lparr>branches := branches (store w2) @ nbs,
                          tasks := tasks (store w2) @ concat tss\<rparr>,
               queue := queue w2 @ [?new]\<rparr>"
  have run: "start_research e pl w = (?w', Session_created ?new)"
    using prompt unfolding start_research_def Let_def planned r by (simp add: built(1))
  have "branches (store ?w') = branches (store w) @ nbs"
    and "tasks (store ?w') = tasks (store w) @ concat tss"
    by (simp_all add: st2 map_store_def)
  with run built(2,3) show ?thesis by blast
qed

theorem start_research_persists_plan_witness:
  "snd (start_research env_plan \<lparr>p_prompt = Some ''X'', p_attachments = []\<rparr> world_idle)
     = Session_created 2 \<and>
   branches (store (fst (start_research env_plan \<lparr>p_prompt = Some ''X'', p_attachments = []\<rparr> world_idle)))
     = [\<lparr>b_id = 1, b_session_id = 2, b_name = ''B1'', b_status = ''active''\<rparr>,
        \<lparr>b_id = 2, b_session_id = 2, b_name = ''Branch'', b_status = ''active''\<rparr>] \<and>
   tasks (store (fst (start_research env_plan \<lparr>p_prompt = Some ''X'', p_attachments = []\<rparr> world_idle)))
     = [\<lparr>t_id = 1, t_branch_id = 1, t_description = ''A'', t_assigned_to = ''Agent'',
         t_status = ''pending'', t_priority = 8, t_result = None, t_python_code = None,
         t_experiment_spec = None, t_dependencies = JList []\<rparr>,
        \<lparr>t_id = 2, t_branch_id = 1, t_description = [], t_assigned_to = ''Agent'',
         t_status = ''pending'', t_priority = 5, t_result = None, t_python_code = None,
         t_experiment_spec = None, t_dependencies = JList []\<rparr>]"
proof -
  let ?pl = "\<lparr>p_prompt = Some ''X'', p_attachments = []\<rparr>"
  have strip: "strip (case p_prompt ?pl of None \<Rightarrow> [] | Some s \<Rightarrow> s) = ''X''"
    by (simp add: strip_def is_space_def)
  have prompt: "strip (case p_prompt ?pl of None \<Rightarrow> [] | Some s \<Rightarrow> s) \<noteq> []"
    unfolding strip by simp
  have key: "api_key env_plan = Some ''key''" "''key'' \<noteq> []"
    by (simp_all add: env_plan_def env_ok_def)
  have returned: "generate_content env_plan (length (events world_idle))
                   (OrchestratePlan (strip (case p_prompt ?pl of None \<Rightarrow> [] | Some s \<Rightarrow> s))
                      (p_attachments ?pl))
                  = Returned \<lparr>r_text = Some ''report'', r_grounding_uris = []\<rparr>"
    by (simp add: env_plan_def env_ok_def)
  have parsed: "extract_json env_plan
       (case r_text \<lparr>r_text = Some ''report'', r_grounding_uris = []\<rparr> of None \<Rightarrow> [] | Some s \<Rightarrow> s)
       = Some (JList plan_x)"
    by (simp add: env_plan_def)
  have shape: "list_all branch_descriptor plan_x"
    by (simp add: plan_x_def branch_descriptor_def task_descriptor_def is_dict_def
        absent_or_str_def absent_or_int_def field_def)
  have ids: "next_id (map s_id (sessions (store world_idle))) = 2"
    by (simp add: next_id_def world_idle_def session_x_def)
  from start_research_persists_plan [OF prompt key returned parsed shape]
  obtain w' where run: "start_research env_plan ?pl world_idle = (w', Session_created 2)"
    unfolding ids by blast
  have eval: "store (fst (start_research env_plan ?pl world_idle)) =
    \<lparr>sessions = [session_x, \<lparr>s_id = 2, s_original_prompt = ''X'', s_status = ''pending'',
                              s_final_synthesis = None\<rparr>],
      branches = [\<lparr>b_id = 1, b_session_id = 2, b_name = ''B1'', b_status = ''active''\<rparr>,
        \<lparr>b_id = 2, b_session_id = 2, b_name = ''Branch'', b_status = ''active''\<rparr>],
      tasks = [\<lparr>t_id = 1, t_branch_id = 1, t_description = ''A'', t_assigned_to = ''Agent'',
         t_status = ''pending'', t_priority = 8, t_result = None, t_python_code = None,
         t_experiment_spec = None, t_dependencies = JList []\<rparr>,
        \<lparr>t_id = 2, t_branch_id = 1, t_description = [], t_assigned_to = ''Agent'',
         t_status = ''pending'', t_priority = 5, t_result = None, t_python_code = None,
         t_experiment_spec = None, t_dependencies = JList []\<rparr>],
      logs = [], facts = []\<rparr>"
    by (simp add: start_research_def strip [simplified] ids Let_def orchestrate_plan_def get_client_def
        invoke_def map_store_def persist_branch_def as_dict_def dict_get_def col_str_def
        col_int_def task_record_def next_id_def
        env_plan_def env_ok_def plan_x_def world_idle_def session_x_def)
  show ?thesis
    unfolding eval using run by simp
qed

subsection \<open>The session table under the operations\<close>

lemma persist_branch_sessions:
  "persist_branch sid bd d = (d', r) \<Longrightarrow> sessions d' = sessions d"
  by (auto simp: persist_branch_def Let_def split: option.splits sum.splits)

lemma persist_branches_sessions:
  "persist_branches sid plan d = (d', r) \<Longrightarrow> sessions d' = sessions d"
proof (induction plan arbitrary: d)
  case Nil
  then show ?case by simp
next
  case (Cons bd plan)
  obtain d1 r1 where one: "persist_branch sid bd d = (d1, r1)"
    by (cases "persist_branch sid bd d")
  show ?case
  proof (cases r1)
    case None
    with Cons.prems one have "persist_branches sid plan d1 = (d', r)" by simp
    then have "sessions d' = sessions d1" by (rule Cons.IH)
    then show ?thesis using persist_branch_sessions [OF one] by simp
  next
    case (Some err)
    with Cons.prems one have "d' = d1" by simp
    then show ?thesis using persist_branch_sessions [OF one] by simp
  qed
qed

lemma start_research_sessions:
  "\<exists>new. sessions (store (fst (start_research e pl w))) = sessions (store w) @ new"
proof (cases "strip (case p_prompt pl of None \<Rightarrow> [] | Some s \<Rightarrow> s) = []")
  case True
  then show ?thesis by (simp add: start_research_def)
next
  case False
  let ?prompt = "strip (case p_prompt pl of None \<Rightarrow> [] | Some s \<Rightarrow> s)"
  let ?new = "next_id (map s_id (sessions (store w)))"
  let ?row = "\<lparr>s_id = ?new, s_original_prompt = ?prompt, s_status = ''pending'',
               s_final_synthesis = None\<rparr>"
  let ?w1 = "map_store (\<lambda>d. d\<lparr>sessions := sessions d @ [?row]\<rparr>) w"
  obtain w2 r where planned: "orchestrate_plan e ?prompt (p_attachments pl) ?w1 = (w2, r)"
    by (cases "orchestrate_plan e ?prompt (p_attachments pl) ?w1")
  have st2: "sessions (store w2) = sessions (store w) @ [?row]"
    using orchestrate_plan_world(2) [OF planned] by (simp add: map_store_def)
  have fresh: "\<forall>s \<in> set (sessions (store w)). s_id s \<noteq> ?new"
    using next_id_fresh [of _ "map s_id (sessions (store w))"] by fastforce
  have failed: "sessions (set_session_status ?new ''failed'' (store w2)) =
      sessions (store w) @ [?row\<lparr>s_status := ''failed''\<rparr>]"
    using set_session_status_fresh [OF fresh, of "''failed''"]
    by (simp add: set_session_status_def st2)
  show ?thesis
  proof (cases r)
    case (Inl err)
    have "sessions (store (fst (start_research e pl w))) = sessions (store w) @ [?row] \<or>
          sessions (store (fst (start_research e pl w))) = sessions (store w) @ [?row\<lparr>s_status := ''failed''\<rparr>]"
      using False failed st2 unfolding start_research_def Let_def planned Inl
      by (cases err) (simp_all add: map_store_def)
    then show ?thesis by blast
  next
    case (Inr plan)
    obtain d3 r3 where built: "persist_branches ?new plan (store w2) = (d3, r3)"
      by (cases "persist_branches ?new plan (store w2)")
    have "sessions d3 = sessions (store w) @ [?row]"
      using persist_branches_sessions [OF built] st2 by simp
    then have "sessions (store (fst (start_research e pl w))) = sessions (store w) @ [?row]"
      using False unfolding start_research_def Let_def planned Inr
      by (cases r3) (simp_all add: built)
    then show ?thesis by blast
  qed
qed

lemma pause_branch_sessions:
  "sessions (store (fst (pause_branch bid w))) = sessions (store w)"
  by (simp add: pause_branch_def map_store_def Let_def split: sum.splits option.splits)

lemma in_set_map_if:
  "s \<in> set (map (\<lambda>x. if P x then g x else x) xs) \<Longrightarrow>
   (\<exists>x \<in> set xs. P x \<and> s = g x) \<or> (s \<in> set xs \<and> \<not> P s)"
  by (induction xs) (auto split: if_splits)

lemma status_after_set:
  assumes "s \<in> set (sessions (set_session_status sid st d))" and "s_id s = sid"
  shows "s_status s = st"
proof -
  from assms(1) have "s \<in> set (map (\<lambda>x. if s_id x = sid then x\<lparr>s_status := st\<rparr> else x) (sessions d))"
    by (simp add: set_session_status_def)
  from in_set_map_if [OF this] assms(2) obtain x where "s = x\<lparr>s_status := st\<rparr>"
    by blast
  then show ?thesis by simp
qed

lemma status_after_complete:
  assumes "s \<in> set (sessions (complete_session sid syn d))" and "s_id s = sid"
  shows "s_status s = ''completed''"
proof -
  from assms(1) have "s \<in> set (map (\<lambda>x. if s_id x = sid
      then x\<lparr>s_status := ''completed'', s_final_synthesis := Some syn\<rparr> else x) (sessions d))"
    by (simp add: complete_session_def)
  from in_set_map_if [OF this] assms(2) obtain x where
    "s = x\<lparr>s_status := ''completed'', s_final_synthesis := Some syn\<rparr>"
    by blast
  then show ?thesis by simp
qed

lemma others_after_set:
  assumes "s \<in> set (sessions (set_session_status sid st d))" and "s_id s \<noteq> sid"
  shows "s \<in> set (sessions d)"
proof -
  from assms(1) have "s \<in> set (map (\<lambda>x. if s_id x = sid then x\<lparr>s_status := st\<rparr> else x) (sessions d))"
    by (simp add: set_session_status_def)
  from in_set_map_if [OF this] assms(2) show ?thesis
    by auto
qed

lemma others_after_complete:
  assumes "s \<in> set (sessions (complete_session sid syn d))" and "s_id s \<noteq> sid"
  shows "s \<in> set (sessions d)"
proof -
  from assms(1) have "s \<in> set (map (\<lambda>x. if s_id x = sid
      then x\<lparr>s_status := ''completed'', s_final_synthesis := Some syn\<rparr> else x) (sessions d))"
    by (simp add: complete_session_def)
  from in_set_map_if [OF this] assms(2) show ?thesis
    by auto
qed

lemma ids_after_set: "map s_id (sessions (set_session_status sid st d)) = map s_id (sessions d)"
proof -
  have "map s_id (map (\<lambda>s. if s_id s = sid then s\<lparr>s_status := st\<rparr> else s) ss) = map s_id ss" for ss
    by (induction ss) simp_all
  then show ?thesis by (simp add: set_session_status_def)
qed

lemma ids_after_complete: "map s_id (sessions (complete_session sid syn d)) = map s_id (sessions d)"
proof -
  have "map s_id (map (\<lambda>s. if s_id s = sid
           then s\<lparr>s_status := ''completed'', s_final_synthesis := Some syn\<rparr> else s) ss) = map s_id ss" for ss
    by (induction ss) simp_all
  then show ?thesis by (simp add: complete_session_def)
qed

subsection \<open>The entry point on a stored session\<close>

text \<open>
  For a session that is stored, the entry point commits the status
  \<^verbatim>\<open>running\<close> and is then left by the \<^verbatim>\<open>UnboundLocalError\<close> of line 38. The
  loop function is not entered and the handler for quota exhaustion is not
  reached.
\<close>

lemma run_research_loop_stored:
  assumes "session_rows sid (store w) = [rs]"
  shows "run_research_loop e sid w =
           (map_store (set_session_status sid ''running'') w, Some UnboundLocalError)"
  using assms by (simp add: run_research_loop_def call_on_line_38_def)

subsection \<open>The session state machine\<close>

text \<open>
  The entry point sets the status to \<^verbatim>\<open>running\<close> without looking at the status
  the session has. A session that is \<^verbatim>\<open>failed\<close> is therefore moved to
  \<^verbatim>\<open>running\<close> by an invocation of the loop's entry point: the terminal
  statuses are not final.
\<close>

theorem terminal_status_counterexample:
  "map s_status (sessions (store world_halted)) = [''failed''] \<and>
   map s_status (sessions (store (fst (run_research_loop env_ok 1 world_halted)))) = [''running'']"
proof -
  have rows: "session_rows 1 (store world_halted) = [session_x\<lparr>s_status := ''failed''\<rparr>]"
    by (simp add: session_rows_def world_halted_def session_x_def)
  show ?thesis
    by (simp add: run_research_loop_stored [OF rows])
      (simp add: map_store_def set_session_status_def world_halted_def session_x_def)
qed

text \<open>
  C3, amended. For a stored session, the entry point moves it to \<^verbatim>\<open>running\<close>
  whatever its status was, keeps every session row, and leaves the rows of
  the other sessions as they were. The other writing operations leave every
  existing session row as it is: \<^verbatim>\<open>start_research\<close> only appends the row of
  its new session, and \<^verbatim>\<open>pause_branch\<close> does not touch the table. So the
  status of a session, terminal or not, is changed only by an invocation of
  the loop's entry point for that session.
\<close>

theorem session_status_transitions:
  assumes rows: "session_rows sid (store w) = [rs]"
  shows "map s_id (sessions (store (fst (run_research_loop e sid w)))) = map s_id (sessions (store w)) \<and>
         (\<forall>s \<in> set (sessions (store (fst (run_research_loop e sid w)))).
            if s_id s = sid then s_status s = ''running'' else s \<in> set (sessions (store w))) \<and>
         (\<exists>new. sessions (store (fst (start_research e pl w))) = sessions (store w) @ new) \<and>
         sessions (store (fst (pause_branch bid w))) = sessions (store w)"
proof -
  have run: "sessions (store (fst (run_research_loop e sid w))) =
               sessions (set_session_status sid ''running'' (store w))"
    by (simp add: run_research_loop_stored [OF rows] map_store_def)
  have "\<forall>s \<in> set (sessions (store (fst (run_research_loop e sid w)))).
            if s_id s = sid then s_status s = ''running'' else s \<in> set (sessions (store w))"
    unfolding run by (auto dest: status_after_set others_after_set)
  moreover have "map s_id (sessions (store (fst (run_research_loop e sid w)))) = map s_id (sessions (store w))"
    unfolding run by (rule ids_after_set)
  ultimately show ?thesis
    using start_research_sessions [of e pl w] pause_branch_sessions [of bid w]
    by blast
qed

theorem session_status_transitions_witness:
  "map s_id (sessions (store (fst (run_research_loop env_ok 1 world_idle)))) = [1] \<and>
   map s_status (sessions (store (fst (run_research_loop env_ok 1 world_idle)))) = [''running''] \<and>
   sessions (store (fst (pause_branch 1 world_idle))) = [session_x]"
proof -
  have rows: "session_rows 1 (store world_idle) = [session_x]"
    by (simp add: session_rows_def world_idle_def session_x_def)
  note inst = session_status_transitions [OF rows, of env_ok "\<lparr>p_prompt = None, p_attachments = []\<rparr>" 1]
  from inst have ids: "map s_id (sessions (store (fst (run_research_loop env_ok 1 world_idle))))
      = map s_id (sessions (store world_idle))"
    and st: "\<forall>s \<in> set (sessions (store (fst (run_research_loop env_ok 1 world_idle)))).
            if s_id s = 1 then s_status s = ''running'' else s \<in> set (sessions (store world_idle))"
    and pb: "sessions (store (fst (pause_branch 1 world_idle))) = sessions (store world_idle)"
    by blast+
  have len: "length (sessions (store (fst (run_research_loop env_ok 1 world_idle)))) = 1"
    using arg_cong [OF ids, of length] by (simp add: world_idle_def)
  then obtain s where s: "sessions (store (fst (run_research_loop env_ok 1 world_idle))) = [s]"
    by (cases "sessions (store (fst (run_research_loop env_ok 1 world_idle)))") auto
  have "s_id s = 1"
    using ids unfolding s by (simp add: world_idle_def session_x_def)
  with st have "s_status s = ''running''"
    unfolding s by simp
  moreover have "sessions (store (fst (pause_branch 1 world_idle))) = [session_x]"
    using pb by (simp add: world_idle_def)
  ultimately show ?thesis
    unfolding s using \<open>s_id s = 1\<close> by simp
qed

subsection \<open>Quota exhaustion during the loop\<close>

text \<open>
  C2. The run the statement is about does not take place. The entry point,
  invoked on a stored session with pending tasks and a client that would
  refuse the second call for quota, is left by \<^verbatim>\<open>UnboundLocalError\<close>: the
  session is \<^verbatim>\<open>running\<close> and not \<^verbatim>\<open>failed\<close>, no log row of type \<^verbatim>\<open>error\<close> is
  written, no task has been selected and no service call has been made.
\<close>

theorem quota_run_stops_before_loop:
  "run_research_loop env_quota_second 1 world_x =
     (map_store (set_session_status 1 ''running'') world_x, Some UnboundLocalError) \<and>
   map s_status (sessions (store (fst (run_research_loop env_quota_second 1 world_x)))) = [''running''] \<and>
   tasks (store (fst (run_research_loop env_quota_second 1 world_x))) = [task_a, task_b, task_c] \<and>
   logs (store (fst (run_research_loop env_quota_second 1 world_x))) = [] \<and>
   events (fst (run_research_loop env_quota_second 1 world_x)) = []"
proof -
  have rows: "session_rows 1 (store world_x) = [session_x]"
    by (simp add: session_rows_def world_x_def db_x_def session_x_def)
  show ?thesis
    by (simp add: run_research_loop_stored [OF rows])
      (simp add: map_store_def set_session_status_def world_x_def db_x_def session_x_def)
qed

subsection \<open>The task executor\<close>

text \<open>
  C5. The loop body does not get as far as the statement describes. For the
  selected task it commits the status \<^verbatim>\<open>running\<close> and is then left by the
  \<^verbatim>\<open>MissingGreenlet\<close> of line 82, where it reads the description of the object
  that this commit has expired: the reasoning service is not called, no
  result is stored, the task is not marked \<^verbatim>\<open>done\<close> and no log row is
  appended.
\<close>

theorem execute_task_stops_at_expired_read:
  "execute_task env_ok 1 task_c world_x = (map_store (mark_running 3) world_x, Some MissingGreenlet) \<and>
   events (fst (execute_task env_ok 1 task_c world_x)) = [] \<and>
   map t_status (tasks (store (fst (execute_task env_ok 1 task_c world_x))))
     = [''pending'', ''pending'', ''running''] \<and>
   map t_result (tasks (store (fst (execute_task env_ok 1 task_c world_x)))) = [None, None, None] \<and>
   logs (store (fst (execute_task env_ok 1 task_c world_x))) = []"
  by (simp add: execute_task_raises)
    (simp add: map_store_def mark_running_def world_x_def db_x_def task_a_def task_b_def task_c_def)

subsection \<open>Eligibility\<close>

lemma rows_for_retag:
  "rows_for sid (map (\<lambda>b. b\<lparr>b_status := st b\<rparr>) bs) (t\<lparr>t_dependencies := deps t\<rparr>)
     = map (\<lambda>t. t\<lparr>t_dependencies := deps t\<rparr>) (rows_for sid bs t)"
  by (induction bs) (simp_all add: rows_for_def)

lemma pending_rows_retag:
  "pending_rows sid (d\<lparr>branches := map (\<lambda>b. b\<lparr>b_status := st b\<rparr>) (branches d),
                       tasks := map (\<lambda>t. t\<lparr>t_dependencies := deps t\<rparr>) (tasks d)\<rparr>)
     = map (\<lambda>t. t\<lparr>t_dependencies := deps t\<rparr>) (pending_rows sid d)"
  by (simp add: pending_rows_def map_concat comp_def rows_for_retag)

lemma insort_key_map:
  assumes "\<And>x. k (h x) = k x"
  shows "insort_key k (h x) (map h ys) = map h (insort_key k x ys)"
  by (induction ys) (simp_all add: assms)

lemma sort_key_map:
  assumes "\<And>x. k (h x) = k x"
  shows "sort_key k (map h xs) = map h (sort_key k xs)"
  by (induction xs) (simp_all add: insort_key_map [of k h, OF assms])

lemma select_next_retag:
  "select_next sid (d\<lparr>branches := map (\<lambda>b. b\<lparr>b_status := st b\<rparr>) (branches d),
                      tasks := map (\<lambda>t. t\<lparr>t_dependencies := deps t\<rparr>) (tasks d)\<rparr>)
     = map_option (\<lambda>t. t\<lparr>t_dependencies := deps t\<rparr>) (select_next sid d)"
proof -
  have key: "task_key (t\<lparr>t_dependencies := deps t\<rparr>) = task_key t" for t
    by (simp add: task_key_def)
  have "pending_queue sid (d\<lparr>branches := map (\<lambda>b. b\<lparr>b_status := st b\<rparr>) (branches d),
                      tasks := map (\<lambda>t. t\<lparr>t_dependencies := deps t\<rparr>) (tasks d)\<rparr>)
      = map (\<lambda>t. t\<lparr>t_dependencies := deps t\<rparr>) (pending_queue sid d)"
    unfolding pending_queue_def pending_rows_retag
    by (rule sort_key_map) (rule key)
  then show ?thesis
    by (simp add: select_next_def first_row_def split: list.splits)
qed

text \<open>
  C6. Whatever the statuses of the branches and whatever the dependency
  lists of the tasks are changed to, the scheduler selects the same task (the
  returned row carrying its changed dependency list): only the status
  \<^verbatim>\<open>pending\<close> and the order by priority and id decide. In the example the
  loop function selects task C, which belongs to a paused branch and names an
  unfinished dependency, and marks it \<^verbatim>\<open>running\<close>. The task is not executed,
  though: the loop function is left by the \<^verbatim>\<open>MissingGreenlet\<close> of line 82
  without a service call and without a result, and the entry point does not
  reach the loop function at all.
\<close>

theorem paused_task_selected_not_executed:
  "select_next sid (d\<lparr>branches := map (\<lambda>b. b\<lparr>b_status := st b\<rparr>) (branches d),
                      tasks := map (\<lambda>t. t\<lparr>t_dependencies := deps t\<rparr>) (tasks d)\<rparr>)
     = map_option (\<lambda>t. t\<lparr>t_dependencies := deps t\<rparr>) (select_next sid d) \<and>
   select_next 1 (store (map_store (set_session_status 1 ''running'') world_x)) = Some task_c \<and>
   execute_research_loop env_ok 1 session_x (map_store (set_session_status 1 ''running'') world_x) =
     (map_store (mark_running 3) (map_store (set_session_status 1 ''running'') world_x),
      Some MissingGreenlet) \<and>
   events (fst (execute_research_loop env_ok 1 session_x
                  (map_store (set_session_status 1 ''running'') world_x))) = [] \<and>
   map t_result (tasks (store (fst (execute_research_loop env_ok 1 session_x
                  (map_store (set_session_status 1 ''running'') world_x))))) = [None, None, None] \<and>
   run_research_loop env_ok 1 world_x =
     (map_store (set_session_status 1 ''running'') world_x, Some UnboundLocalError)"
proof -
  let ?w1 = "map_store (set_session_status 1 ''running'') world_x"
  have sel: "select_next 1 (store ?w1) = Some task_c"
    by (simp add: select_next_def pending_queue_def pending_rows_def rows_for_def first_row_def
        task_key_def map_store_def set_session_status_def world_x_def db_x_def
        task_a_def task_b_def task_c_def less_eq_prod_def)
  have loop: "execute_research_loop env_ok 1 session_x ?w1 =
      (map_store (mark_running (t_id task_c)) ?w1, Some MissingGreenlet)"
    by (simp add: execute_research_loop.simps [of _ _ _ ?w1] sel execute_task_raises)
  have id: "t_id task_c = 3"
    by (simp add: task_c_def)
  have rows: "session_rows 1 (store world_x) = [session_x]"
    by (simp add: session_rows_def world_x_def db_x_def session_x_def)
  have a: "events (map_store (mark_running 3) ?w1) = []"
    and b: "map t_result (tasks (store (map_store (mark_running 3) ?w1))) = [None, None, None]"
    by (simp_all add: map_store_def mark_running_def set_session_status_def world_x_def db_x_def
        task_a_def task_b_def task_c_def)
  show ?thesis
    using select_next_retag [where sid = sid and st = st and deps = deps and d = d]
      sel loop [unfolded id] a b
      run_research_loop_stored [OF rows, of env_ok]
    by simp
qed

subsection \<open>A session without pending tasks\<close>

text \<open>
  C9. On a session without any pending task no task row is changed, but the
  synthesis is not invoked either. The entry point is left by
  \<^verbatim>\<open>UnboundLocalError\<close> with no service invocation recorded; and the loop
  function, called on the world the entry point has reached, is left by the
  \<^verbatim>\<open>MissingGreenlet\<close> of line 113 before \<^verbatim>\<open>synthesize_research\<close> is called.
\<close>

theorem idle_run_triggers_no_synthesis:
  "run_research_loop env_ok 1 world_idle = (world_started, Some UnboundLocalError) \<and>
   events (fst (run_research_loop env_ok 1 world_idle)) = [] \<and>
   tasks (store (fst (run_research_loop env_ok 1 world_idle))) = tasks (store world_idle) \<and>
   select_next 1 (store world_started) = None \<and>
   execute_research_loop env_ok 1 session_x world_started = (world_started, Some MissingGreenlet)"
proof -
  have rows: "session_rows 1 (store world_idle) = [session_x]"
    by (simp add: session_rows_def world_idle_def session_x_def)
  have run: "run_research_loop env_ok 1 world_idle = (world_started, Some UnboundLocalError)"
    by (simp add: run_research_loop_stored [OF rows] world_started_def)
  have none: "select_next 1 (store world_started) = None"
    by (simp add: select_next_def pending_queue_def pending_rows_def first_row_def
        world_started_def world_idle_def map_store_def set_session_status_def)
  have loop: "execute_research_loop env_ok 1 session_x world_started = (world_started, Some MissingGreenlet)"
    by (simp add: execute_research_loop.simps [of _ _ _ world_started] none synthesis_step_raises)
  show ?thesis
    by (simp add: run none loop)
      (simp add: world_started_def world_idle_def map_store_def set_session_status_def)
qed

subsection \<open>Synthesis\<close>

text \<open>
  The statement that a failing synthesis call is always answered by the
  fallback does not hold as it stands: \<^verbatim>\<open>synthesize_research\<close> builds its
  client before the \<^verbatim>\<open>try\<close>, so without \<^verbatim>\<open>GEMINI_API_KEY\<close> it raises
  \<^verbatim>\<open>RuntimeError\<close> and returns no text.
\<close>

theorem synthesis_without_client_counterexample:
  "synthesize_research env_no_key ''X'' [] world_started =
     (invoke (SynthesizeResearch ''X'' []) world_started,
      Inl (RuntimeError ''GEMINI_API_KEY environment variable is not set''))"
  by (simp add: synthesize_research_def get_client_def Let_def env_no_key_def env_ok_def)

text \<open>
  C4, amended. When the API key is set, \<^verbatim>\<open>synthesize_research\<close> does not
  raise on a model call that raises an exception of class \<^verbatim>\<open>Exception\<close>: it
  returns the fixed text \<^verbatim>\<open>Could not synthesize final report.\<close> And when the
  model call returns, it returns a text that is not empty: the text of the
  response, or the fixed text \<^verbatim>\<open>Synthesis failed.\<close> when the response has none.
\<close>

theorem synthesize_research_fallback:
  assumes key: "api_key e = Some k" "k \<noteq> []"
  shows "(\<forall>msg. generate_content e (length (events w)) (SynthesizeResearch p fs) = Raised msg \<longrightarrow>
            synthesize_research e p fs w =
              (invoke (SynthesizeResearch p fs) w, Inr ''Could not synthesize final report.'')) \<and>
         (\<forall>resp. generate_content e (length (events w)) (SynthesizeResearch p fs) = Returned resp \<longrightarrow>
            (\<exists>text. synthesize_research e p fs w = (invoke (SynthesizeResearch p fs) w, Inr text) \<and>
                    text \<noteq> [] \<and>
                    (r_text resp = None \<or> r_text resp = Some [] \<longrightarrow> text = ''Synthesis failed.'') \<and>
                    (\<forall>s. r_text resp = Some s \<and> s \<noteq> [] \<longrightarrow> text = s)))"
proof -
  have client: "get_client e = Inr ()"
    using key by (simp add: get_client_def)
  show ?thesis
    by (auto simp: synthesize_research_def client Let_def split: option.splits)
qed

theorem synthesize_research_fallback_witness:
  "synthesize_research (env_quota_at 0) ''X'' [] world_started =
     (invoke (SynthesizeResearch ''X'' []) world_started, Inr ''Could not synthesize final report.'') \<and>
   (\<exists>text. synthesize_research env_ok ''X'' [] world_started =
             (invoke (SynthesizeResearch ''X'' []) world_started, Inr text) \<and> text = ''report'')"
proof -
  have key: "api_key (env_quota_at 0) = Some ''key''" "api_key env_ok = Some ''key''" "''key'' \<noteq> []"
    by (simp_all add: env_quota_at_def env_ok_def)
  have ev: "length (events world_started) = 0"
    by (simp add: world_started_def world_idle_def map_store_def)
  have raised: "generate_content (env_quota_at 0) (length (events world_started))
      (SynthesizeResearch ''X'' []) = Raised ''429 RESOURCE_EXHAUSTED''"
    unfolding ev by (simp add: env_quota_at_def env_ok_def)
  have returned: "generate_content env_ok (length (events world_started))
      (SynthesizeResearch ''X'' []) = Returned \<lparr>r_text = Some ''report'', r_grounding_uris = []\<rparr>"
    by (simp add: env_ok_def)
  from synthesize_research_fallback [OF key(1,3), of world_started "''X''" "[]"] raised
  have a: "synthesize_research (env_quota_at 0) ''X'' [] world_started =
     (invoke (SynthesizeResearch ''X'' []) world_started, Inr ''Could not synthesize final report.'')"
    by blast
  from synthesize_research_fallback [OF key(2,3), of world_started "''X''" "[]"] returned
  obtain answer where "synthesize_research env_ok ''X'' [] world_started =
             (invoke (SynthesizeResearch ''X'' []) world_started, Inr answer)"
    and "\<forall>s. r_text \<lparr>r_text = Some ''report'', r_grounding_uris = []\<rparr> = Some s \<and> s \<noteq> [] \<longrightarrow> answer = s"
    by blast
  then have b: "\<exists>text. synthesize_research env_ok ''X'' [] world_started =
             (invoke (SynthesizeResearch ''X'' []) world_started, Inr text) \<and> text = ''report''"
    by simp
  show ?thesis
    using a b by (rule conjI)
qed

end
